theory Spec2Isabelle
  imports Main "HOL-Library.Sublist"
begin

section \<open>JavaScript strings and values\<close>

text \<open>
  A JavaScript string is a sequence of UTF-16 code units. A code unit is modelled as a
  natural number (every value below 65536 is one), so that \<open>trim\<close>, \<open>\s\<close>, \<open>\d\<close> and the
  marker characters U+2705 and U+274C of the parser are single elements, as they are for the
  source. ASCII literals of the source are written \<open>asc ''...''\<close>.
\<close>

type_synonym jstring = "nat list"

definition asc :: "string \<Rightarrow> jstring" where
  "asc s = map of_char s"

text \<open>\<open>s.startsWith(p)\<close>, \<open>s.includes(p)\<close>, \<open>s.split('\n')\<close>, \<open>xs.join(sep)\<close>.\<close>

definition startsWith :: "jstring \<Rightarrow> jstring \<Rightarrow> bool" where
  "startsWith s p = (take (length p) s = p)"

fun includesStr :: "jstring \<Rightarrow> jstring \<Rightarrow> bool" where
  "includesStr [] p = (p = [])"
| "includesStr (c # cs) p = (if startsWith (c # cs) p then True else includesStr cs p)"

fun splitLines :: "jstring \<Rightarrow> jstring \<Rightarrow> jstring list" where
  "splitLines cur [] = [rev cur]"
| "splitLines cur (c # cs) =
     (if c = 10 then rev cur # splitLines [] cs else splitLines (c # cur) cs)"

fun join :: "jstring \<Rightarrow> jstring list \<Rightarrow> jstring" where
  "join sep [] = []"
| "join sep [x] = x"
| "join sep (x # y # ys) = x @ sep @ join sep (y # ys)"

text \<open>
  The white space of \<open>String.prototype.trim\<close> and of \<open>\s\<close>: WhiteSpace and LineTerminator
  of ECMAScript. \<open>\d\<close> (no \<open>u\<close> flag) is the ASCII digits.
\<close>

definition isWhitespace :: "nat \<Rightarrow> bool" where
  "isWhitespace c =
     (c = 9 \<or> c = 10 \<or> c = 11 \<or> c = 12 \<or> c = 13 \<or> c = 32 \<or> c = 160 \<or> c = 5760 \<or>
      (8192 \<le> c \<and> c \<le> 8202) \<or> c = 8232 \<or> c = 8233 \<or> c = 8239 \<or> c = 8287 \<or>
      c = 12288 \<or> c = 65279)"

definition isDigit :: "nat \<Rightarrow> bool" where
  "isDigit c = (48 \<le> c \<and> c \<le> 57)"

definition trim :: "jstring \<Rightarrow> jstring" where
  "trim s = rev (dropWhile isWhitespace (rev (dropWhile isWhitespace s)))"

text \<open>
  Case folding of a regular expression with the \<open>i\<close> flag and no \<open>u\<close> flag, against an
  ASCII pattern: a code unit outside ASCII never matches an ASCII letter.
\<close>

definition asciiLower :: "jstring \<Rightarrow> jstring" where
  "asciiLower s = map (\<lambda>c. if 65 \<le> c \<and> c \<le> 90 then c + 32 else c) s"

definition startsWithCI :: "jstring \<Rightarrow> jstring \<Rightarrow> bool" where
  "startsWithCI s p = (asciiLower (take (length p) s) = asciiLower p)"

text \<open>
  The values a free-form bag (\<open>Record<string, unknown>\<close>) or a YAML document can hold:
  those of a JSON document, and \<open>undefined\<close>. Numbers are the integers that a
  \<open>Number\<close> holds exactly and prints in full (of magnitude below \<open>2^53\<close>); other
  numbers are not modelled.
\<close>

datatype jsval =
    JUndefined
  | JNull
  | JBool bool
  | JNum int
  | JStr jstring
  | JArr "jsval list"
  | JObj "(jstring \<times> jsval) list"

text \<open>Property lookup \<open>o.k\<close> on a plain object: a missing key reads \<open>undefined\<close>.\<close>

definition getProp :: "(jstring \<times> jsval) list \<Rightarrow> jstring \<Rightarrow> jsval" where
  "getProp kv k = (case map_of kv k of None \<Rightarrow> JUndefined | Some v \<Rightarrow> v)"

text \<open>
  A \<open>TypeError\<close> of the engine: a property read on \<open>undefined\<close>, or a destructuring of
  \<open>undefined\<close> or \<open>null\<close> (with the first property destructured).
\<close>

datatype fault = ReadOfUndefined jstring | DestructureNullish jstring

text \<open>
  What the surrounding runtime provides to the parser: the YAML library's \<open>load\<close>
  (\<open>None\<close> when it throws) and \<open>String.prototype.toLowerCase\<close>, whose Unicode case
  mapping is a table of the engine.
\<close>

record env =
  yaml_load :: "jstring \<Rightarrow> jsval option"
  toLowerCase :: "jstring \<Rightarrow> jstring"

section \<open>The canonical content model\<close>

record rule =
  r_content :: jstring
  r_rationale :: "jstring option"
  r_examples :: "jstring list option"

record example =
  e_description :: jstring
  e_code :: jstring
  e_language :: "jstring option"
  e_good :: "bool option"

text \<open>
  A section is a tagged variant. The \<open>data\<close> of a metadata or persona section is a free-form
  bag; \<open>None\<close> is a section whose \<open>data\<close> is \<open>undefined\<close> or \<open>null\<close> at run time.
  \<open>UnknownSection t\<close> is an object whose \<open>type\<close> is none of the eight known ones.
\<close>

datatype Section =
    MetadataSection "(jstring \<times> jsval) list option"
  | InstructionsSection jstring jstring "jstring option"
  | RulesSection jstring "rule list" "bool option"
  | ExamplesSection jstring "example list"
  | PersonaSection "(jstring \<times> jsval) list option"
  | ContextSection jstring jstring
  | ToolsSection "jstring list"
  | CustomSection "jstring option" jstring
  | UnknownSection jstring

record agentsMdConfig =
  project :: "jstring option"
  scope :: "jstring option"

record packageMetadataBag =
  m_title :: "jstring option"
  m_description :: "jstring option"
  m_globs :: "jstring list option"
  m_alwaysApply :: "bool option"
  m_version :: "jstring option"
  m_agentsMdConfig :: "agentsMdConfig option"

record canonicalPackage =
  p_id :: jstring
  p_version :: jstring
  p_name :: jstring
  p_description :: jstring
  p_author :: jstring
  p_tags :: "jstring list"
  p_sections :: "Section list"
  p_sourceFormat :: jstring
  p_metadata :: "packageMetadataBag option"
  p_format :: "jstring option"
  p_subtype :: "jstring option"

section \<open>The agents.md parser\<close>

record packageMetadata =
  pm_id :: jstring
  pm_name :: jstring
  pm_description :: "jstring option"
  pm_author :: "jstring option"
  pm_tags :: "jstring list option"
  pm_version :: "jstring option"

subsection \<open>Front matter\<close>

text \<open>
  \<open>content.match(/^---\n([\s\S]*?)\n---\n([\s\S]*)$/)\<close>: the content starts with a line of
  three dashes; the first group is lazy, so it ends at the first \<open>\n---\n\<close> after it.
\<close>

fun findClose :: "jstring \<Rightarrow> jstring \<Rightarrow> (jstring \<times> jstring) option" where
  "findClose acc [] = None"
| "findClose acc (c # cs) =
     (if startsWith (c # cs) (10 # asc ''---'' @ [10]) then Some (rev acc, drop 5 (c # cs))
      else findClose (c # acc) cs)"

definition matchFrontmatter :: "jstring \<Rightarrow> (jstring \<times> jstring) option" where
  "matchFrontmatter content =
     (if startsWith content (asc ''---'' @ [10]) then findClose [] (drop 4 content) else None)"

definition stringField :: "jsval \<Rightarrow> jstring \<Rightarrow> jstring option" where
  "stringField parsed k =
     (case parsed of
        JObj kv \<Rightarrow> (case map_of kv k of Some (JStr v) \<Rightarrow> Some v | _ \<Rightarrow> None)
      | _ \<Rightarrow> None)"

definition parseFrontmatter :: "env \<Rightarrow> jstring \<Rightarrow> agentsMdConfig \<times> jstring" where
  "parseFrontmatter E content =
     (case matchFrontmatter content of
        None \<Rightarrow> (\<lparr>project = None, scope = None\<rparr>, content)
      | Some (frontmatterText, body) \<Rightarrow>
          (case yaml_load E frontmatterText of
             None \<Rightarrow> (\<lparr>project = None, scope = None\<rparr>, content)
           | Some parsed \<Rightarrow>
               (\<lparr>project = stringField parsed (asc ''project''),
                 scope = stringField parsed (asc ''scope'')\<rparr>, body)))"

subsection \<open>Description\<close>

fun extractLoop :: "bool \<Rightarrow> jstring list \<Rightarrow> jstring list \<Rightarrow> jstring list" where
  "extractLoop afterHeading descriptionLines [] = descriptionLines"
| "extractLoop afterHeading descriptionLines (line # ls) =
     (if startsWith line (asc ''# '') then extractLoop True descriptionLines ls
      else if afterHeading \<and> (startsWith line (asc ''## '') \<or> startsWith line (asc ''### ''))
      then descriptionLines
      else if afterHeading \<and> trim line \<noteq> [] then
        (if length (descriptionLines @ [trim line]) > 0 \<and> trim line = []
         then descriptionLines @ [trim line]
         else extractLoop afterHeading (descriptionLines @ [trim line]) ls)
      else extractLoop afterHeading descriptionLines ls)"

definition extractDescription :: "jstring \<Rightarrow> jstring" where
  "extractDescription content =
     take 200 (join (asc '' '') (extractLoop False [] (splitLines [] content)))"

subsection \<open>Section kinds, tags\<close>

datatype sectionType = TInstructions | TRules | TExamples | TContext

text \<open>\<open>line.match(/^\d+\.\s/)\<close> and the list-item test of the parser.\<close>

definition matchesOrdinal :: "jstring \<Rightarrow> bool" where
  "matchesOrdinal line =
     (takeWhile isDigit line \<noteq> [] \<and>
      (case dropWhile isDigit line of
         a # b # _ \<Rightarrow> a = 46 \<and> isWhitespace b
       | _ \<Rightarrow> False))"

definition isListItem :: "jstring \<Rightarrow> bool" where
  "isListItem line = (startsWith line (asc ''- '') \<or> matchesOrdinal line)"

fun lookAhead :: "jstring list \<Rightarrow> sectionType" where
  "lookAhead [] = TInstructions"
| "lookAhead (l # ls) =
     (if isListItem (trim l) then TRules
      else if startsWith (trim l) (asc ''### '') \<or> startsWith (trim l) (asc ''```'')
      then TExamples
      else lookAhead ls)"

definition inferSectionType :: "env \<Rightarrow> jstring \<Rightarrow> jstring list \<Rightarrow> sectionType" where
  "inferSectionType E title following =
     (let titleLower = toLowerCase E title in
      if includesStr titleLower (asc ''example'') \<or> includesStr titleLower (asc ''sample'') \<or>
         includesStr titleLower (asc ''usage'')
      then TExamples
      else if includesStr titleLower (asc ''rule'') \<or> includesStr titleLower (asc ''guideline'') \<or>
         includesStr titleLower (asc ''standard'') \<or> includesStr titleLower (asc ''convention'') \<or>
         includesStr titleLower (asc ''requirement'') \<or> includesStr titleLower (asc ''must'') \<or>
         includesStr titleLower (asc ''should'')
      then TRules
      else if includesStr titleLower (asc ''context'') \<or> includesStr titleLower (asc ''background'') \<or>
         includesStr titleLower (asc ''overview'') \<or> includesStr titleLower (asc ''about'') \<or>
         includesStr titleLower (asc ''introduction'')
      then TContext
      else lookAhead (take 4 following))"

definition techKeywords :: "jstring list" where
  "techKeywords =
     [asc ''typescript'', asc ''javascript'', asc ''python'', asc ''react'', asc ''testing'',
      asc ''api'', asc ''backend'', asc ''frontend'', asc ''database'', asc ''security'']"

definition inferTags :: "env \<Rightarrow> jstring \<Rightarrow> jstring list" where
  "inferTags E content =
     (let contentLower = toLowerCase E content;
          tags = filter (\<lambda>keyword. includesStr contentLower keyword) techKeywords;
          tags2 = (if includesStr contentLower (asc ''codex'') \<or>
                      includesStr contentLower (asc ''openai'')
                   then tags @ [asc ''codex''] else tags)
      in take 5 tags2)"

subsection \<open>The replacements of the line scanner\<close>

text \<open>\<open>description.replace(/^[U+2705 U+274C]\s*/, '')\<close>: the check mark or the cross mark.\<close>

definition stripMarker :: "jstring \<Rightarrow> jstring" where
  "stripMarker d =
     (case d of
        [] \<Rightarrow> []
      | c # cs \<Rightarrow> if c = 9989 \<or> c = 10060 then dropWhile isWhitespace cs else d)"

text \<open>\<open>.replace(/^(Preferred|Avoid|Do|Don't):\s*/i, '')\<close>.\<close>

definition stripPolarityWord :: "jstring \<Rightarrow> jstring" where
  "stripPolarityWord d =
     (if startsWithCI d (asc ''Preferred:'') then dropWhile isWhitespace (drop 10 d)
      else if startsWithCI d (asc ''Avoid:'') then dropWhile isWhitespace (drop 6 d)
      else if startsWithCI d (asc ''Do:'') then dropWhile isWhitespace (drop 3 d)
      else if startsWithCI d (asc ''Don'' @ [39] @ asc ''t:'') then dropWhile isWhitespace (drop 6 d)
      else d)"

text \<open>\<open>line.replace(/^[-\d.]\s+/, '')\<close>: one marker character, then white space.\<close>

definition stripListMarker :: "jstring \<Rightarrow> jstring" where
  "stripListMarker line =
     (case line of
        c # w # cs \<Rightarrow>
          if (c = 45 \<or> isDigit c \<or> c = 46) \<and> isWhitespace w
          then dropWhile isWhitespace cs else line
      | _ \<Rightarrow> line)"

text \<open>\<open>subContent.replace(/^(Rationale|Why):\s*/, '')\<close>.\<close>

definition stripRationale :: "jstring \<Rightarrow> jstring" where
  "stripRationale s =
     (if startsWith s (asc ''Rationale:'') then dropWhile isWhitespace (drop 10 s)
      else if startsWith s (asc ''Why:'') then dropWhile isWhitespace (drop 4 s)
      else s)"

text \<open>
  \<open>subContent.replace(/^Example:\s*`([^`]+)`/, '$1')\<close>: the quoted code replaces the match
  and what follows the closing back-tick stays; without a match the string is unchanged.
\<close>

definition extractExample :: "jstring \<Rightarrow> jstring" where
  "extractExample s =
     (if startsWith s (asc ''Example:'') then
        (case dropWhile isWhitespace (drop 8 s) of
           [] \<Rightarrow> s
         | q # r \<Rightarrow>
             if q = 96 \<and> takeWhile (\<lambda>c. c \<noteq> 96) r \<noteq> [] \<and> dropWhile (\<lambda>c. c \<noteq> 96) r \<noteq> []
             then takeWhile (\<lambda>c. c \<noteq> 96) r @ tl (dropWhile (\<lambda>c. c \<noteq> 96) r)
             else s)
      else s)"

subsection \<open>The line scanner\<close>

record parsedSection =
  s_type :: sectionType
  s_title :: jstring
  s_content :: "jstring list"
  s_items :: "rule list option"
  s_examples :: "example list option"

record codeBlock =
  cb_description :: jstring
  cb_code :: "jstring list"
  cb_language :: "jstring option"
  cb_good :: "bool option"

record pstate =
  sections :: "Section list"
  currentSection :: "parsedSection option"
  inCodeBlock :: bool
  currentCodeBlock :: "codeBlock option"

definition buildSection :: "parsedSection \<Rightarrow> Section" where
  "buildSection parsed =
     (case s_type parsed of
        TRules \<Rightarrow>
          RulesSection (s_title parsed)
            (map (\<lambda>item. \<lparr>r_content = r_content item, r_rationale = r_rationale item,
                            r_examples = r_examples item\<rparr>)
               (case s_items parsed of None \<Rightarrow> [] | Some items \<Rightarrow> items))
            (Some False)
      | TExamples \<Rightarrow>
          ExamplesSection (s_title parsed)
            (case s_examples parsed of None \<Rightarrow> [] | Some exs \<Rightarrow> exs)
      | TContext \<Rightarrow> ContextSection (s_title parsed) (join [10] (s_content parsed))
      | TInstructions \<Rightarrow>
          InstructionsSection (s_title parsed) (join [10] (s_content parsed)) None)"

text \<open>\<open>if (currentSection) sections.push(buildSection(currentSection))\<close>.\<close>

definition pushCurrent :: "pstate \<Rightarrow> Section list" where
  "pushCurrent st =
     (case currentSection st of
        None \<Rightarrow> sections st
      | Some cur \<Rightarrow> sections st @ [buildSection cur])"

definition newSection :: "sectionType \<Rightarrow> jstring \<Rightarrow> jstring list \<Rightarrow> parsedSection" where
  "newSection ty title content =
     \<lparr>s_type = ty, s_title = title, s_content = content,
      s_items = (if ty = TRules then Some [] else None),
      s_examples = (if ty = TExamples then Some [] else None)\<rparr>"

definition fenced :: "codeBlock \<Rightarrow> jstring" where
  "fenced cb =
     asc ''```'' @ (case cb_language cb of None \<Rightarrow> [] | Some l \<Rightarrow> l) @ [10] @
     join [10] (cb_code cb) @ [10] @ asc ''```''"

text \<open>The sub-bullet of a rule: the last item of the list is updated in place.\<close>

definition subBullet :: "jstring \<Rightarrow> rule \<Rightarrow> rule" where
  "subBullet subContent lastItem =
     (if startsWith subContent (asc ''Rationale:'') \<or> startsWith subContent (asc ''Why:'')
      then lastItem\<lparr>r_rationale := Some (stripRationale subContent)\<rparr>
      else if startsWith subContent (asc ''Example:'')
      then lastItem\<lparr>r_examples :=
             Some ((case r_examples lastItem of None \<Rightarrow> [] | Some es \<Rightarrow> es) @
                   [extractExample subContent])\<rparr>
      else lastItem)"

text \<open>
  The branches of the loop of \<open>parseMarkdown\<close>. The non-null assertions \<open>items!\<close> and
  \<open>examples!\<close> of the source are reads that throw on \<open>undefined\<close>.

  A fence line inside a code block closes it: the block becomes an example of an examples
  section, or fenced text of any other section; without a section it is kept.
\<close>

definition closeFence :: "pstate \<Rightarrow> fault + pstate" where
  "closeFence st =
     (case currentCodeBlock st of
        None \<Rightarrow> Inr (st\<lparr>inCodeBlock := False\<rparr>)
      | Some cb \<Rightarrow>
          (case currentSection st of
             None \<Rightarrow> Inr (st\<lparr>inCodeBlock := False\<rparr>)
           | Some cur \<Rightarrow>
               if s_type cur = TExamples then
                 (case s_examples cur of
                    None \<Rightarrow> Inl (ReadOfUndefined (asc ''push''))
                  | Some exs \<Rightarrow>
                      Inr (st\<lparr>inCodeBlock := False,
                        currentSection := Some (cur\<lparr>s_examples := Some (exs @
                          [\<lparr>e_description = cb_description cb,
                            e_code = join [10] (cb_code cb),
                            e_language = cb_language cb,
                            e_good = cb_good cb\<rparr>])\<rparr>),
                        currentCodeBlock := None\<rparr>))
               else
                 Inr (st\<lparr>inCodeBlock := False,
                   currentSection := Some (cur\<lparr>s_content := s_content cur @ [fenced cb]\<rparr>),
                   currentCodeBlock := None\<rparr>)))"

text \<open>A fence line outside a code block opens one, with the language that follows it.\<close>

definition openFence :: "pstate \<Rightarrow> jstring \<Rightarrow> pstate" where
  "openFence st line =
     (let language = (if trim (drop 3 line) = [] then None else Some (trim (drop 3 line))) in
      st\<lparr>inCodeBlock := True,
         currentCodeBlock := Some
           (case currentCodeBlock st of
              Some cb \<Rightarrow> cb\<lparr>cb_language := language\<rparr>
            | None \<Rightarrow> \<lparr>cb_description = asc ''Code example'', cb_code = [],
                       cb_language = language, cb_good = None\<rparr>)\<rparr>)"

text \<open>A \<open>###\<close> line starts the description of the next code block.\<close>

definition exampleHeading :: "env \<Rightarrow> pstate \<Rightarrow> jstring \<Rightarrow> pstate" where
  "exampleHeading E st line =
     (let description = trim (drop 4 line);
          good = (startsWith description [9989] \<or>
                  includesStr (toLowerCase E description) (asc ''preferred'') \<or>
                  includesStr (toLowerCase E description) (asc ''do:''))
      in st\<lparr>currentCodeBlock := Some
           \<lparr>cb_description = stripPolarityWord (stripMarker description), cb_code = [],
            cb_language = None, cb_good = Some good\<rparr>\<rparr>)"

text \<open>
  Any other line outside a code block: a list item or a sub-bullet of a rules section,
  or content of the current section when it is not blank. Without a current section the
  line is dropped.
\<close>

definition bodyLine :: "pstate \<Rightarrow> jstring \<Rightarrow> fault + pstate" where
  "bodyLine st line =
     (case currentSection st of
        None \<Rightarrow> Inr st
      | Some cur \<Rightarrow>
          if isListItem line \<and> s_type cur = TRules then
            (case s_items cur of
               None \<Rightarrow> Inl (ReadOfUndefined (asc ''push''))
             | Some items \<Rightarrow>
                 Inr (st\<lparr>currentSection := Some (cur\<lparr>s_items := Some (items @
                   [\<lparr>r_content = trim (stripListMarker line), r_rationale = None,
                     r_examples = None\<rparr>])\<rparr>)\<rparr>))
          else if startsWith line (asc ''   - '') \<and> s_type cur = TRules then
            (case s_items cur of
               None \<Rightarrow> Inl (ReadOfUndefined (asc ''length''))
             | Some items \<Rightarrow>
                 if length items > 0 then
                   Inr (st\<lparr>currentSection := Some (cur\<lparr>s_items := Some (butlast items @
                     [subBullet (trim (drop 5 line)) (last items)])\<rparr>)\<rparr>)
                 else if trim line \<noteq> [] then
                   Inr (st\<lparr>currentSection := Some (cur\<lparr>s_content := s_content cur @ [line]\<rparr>)\<rparr>)
                 else Inr st)
          else if trim line \<noteq> [] then
            Inr (st\<lparr>currentSection := Some (cur\<lparr>s_content := s_content cur @ [line]\<rparr>)\<rparr>)
          else Inr st)"

text \<open>
  One iteration of the loop on \<open>line\<close>; \<open>following\<close> is the lines after it, which
  \<open>inferSectionType\<close> looks at.
\<close>

definition parseLine :: "env \<Rightarrow> pstate \<Rightarrow> jstring \<Rightarrow> jstring list \<Rightarrow> fault + pstate" where
  "parseLine E st line following =
     (if startsWith line (asc ''# '') then
        Inr (st\<lparr>sections := pushCurrent st,
          currentSection := Some (newSection TContext (asc ''Project Overview'')
                                    [trim (drop 2 line)])\<rparr>)
      else if startsWith line (asc ''## '') then
        Inr (st\<lparr>sections := pushCurrent st,
          currentSection := Some (newSection
            (inferSectionType E (trim (drop 3 line)) following) (trim (drop 3 line)) [])\<rparr>)
      else if startsWith line (asc ''### '') then Inr (exampleHeading E st line)
      else if startsWith line (asc ''```'') then
        (if \<not> inCodeBlock st then Inr (openFence st line) else closeFence st)
      else if inCodeBlock st \<and> currentCodeBlock st \<noteq> None then
        Inr (st\<lparr>currentCodeBlock :=
          map_option (\<lambda>cb. cb\<lparr>cb_code := cb_code cb @ [line]\<rparr>) (currentCodeBlock st)\<rparr>)
      else bodyLine st line)"

fun parseLines :: "env \<Rightarrow> pstate \<Rightarrow> jstring list \<Rightarrow> fault + pstate" where
  "parseLines E st [] = Inr st"
| "parseLines E st (line # following) =
     (case parseLine E st line following of
        Inl e \<Rightarrow> Inl e
      | Inr st' \<Rightarrow> parseLines E st' following)"

definition initialState :: pstate where
  "initialState =
     \<lparr>sections = [], currentSection = None, inCodeBlock = False, currentCodeBlock = None\<rparr>"

definition parseMarkdown :: "env \<Rightarrow> jstring \<Rightarrow> fault + Section list" where
  "parseMarkdown E content =
     (case parseLines E initialState (splitLines [] content) of
        Inl e \<Rightarrow> Inl e
      | Inr st \<Rightarrow> Inr (pushCurrent st))"

subsection \<open>The package\<close>

text \<open>
  Modelled from the spec: \<open>setTaxonomy\<close> of \<open>taxonomy-utils.js\<close> is not among the source
  files. The parser "declares its editor-facing taxonomy (ecosystem + sub-kind)" on the
  package: the two values are recorded on it.
\<close>

definition setTaxonomy :: "canonicalPackage \<Rightarrow> jstring \<Rightarrow> jstring \<Rightarrow> canonicalPackage" where
  "setTaxonomy pkg fmt subtype = pkg\<lparr>p_format := Some fmt, p_subtype := Some subtype\<rparr>"

text \<open>\<open>a || b\<close> on an optional string: an absent or empty \<open>a\<close> gives \<open>b\<close>.\<close>

definition orElse :: "jstring option \<Rightarrow> jstring \<Rightarrow> jstring" where
  "orElse a b = (case a of None \<Rightarrow> b | Some s \<Rightarrow> if s = [] then b else s)"

definition fromAgentsMd :: "env \<Rightarrow> jstring \<Rightarrow> packageMetadata \<Rightarrow> fault + canonicalPackage" where
  "fromAgentsMd E content metadata =
     (let (frontmatter, body) = parseFrontmatter E content in
      case parseMarkdown E body of
        Inl e \<Rightarrow> Inl e
      | Inr parsedSections \<Rightarrow>
          (let description = orElse (pm_description metadata) (extractDescription body);
               metadataSection = MetadataSection (Some
                 [(asc ''title'', JStr (pm_name metadata)),
                  (asc ''description'', JStr description)])
           in Inr (setTaxonomy
             \<lparr>p_id = pm_id metadata,
              p_version = orElse (pm_version metadata) (asc ''1.0.0''),
              p_name = pm_name metadata,
              p_description = description,
              p_author = orElse (pm_author metadata) [],
              p_tags = (case pm_tags metadata of
                          Some tags \<Rightarrow> tags
                        | None \<Rightarrow> asc ''agents.md'' # inferTags E body),
              p_sections = metadataSection # parsedSections,
              p_sourceFormat = asc ''agents.md'',
              p_metadata = Some
                \<lparr>m_title = Some (pm_name metadata), m_description = Some description,
                 m_globs = None, m_alwaysApply = None, m_version = None,
                 m_agentsMdConfig = Some frontmatter\<rparr>,
              p_format = None, p_subtype = None\<rparr>
             (asc ''agents.md'') (asc ''rule''))))"

section \<open>Converter A: Cursor\<close>

subsection \<open>Template literals\<close>

function natToString :: "nat \<Rightarrow> jstring" where
  "natToString n = (if n < 10 then [48 + n] else natToString (n div 10) @ [48 + n mod 10])"
  by pat_completeness auto
termination
  by (relation "measure id") auto

definition intToString :: "int \<Rightarrow> jstring" where
  "intToString i = (if i < 0 then 45 # natToString (nat (- i)) else natToString (nat i))"

text \<open>
  \<open>ToString\<close> of a value, as a template literal applies it; an element of an array that is
  \<open>undefined\<close> or \<open>null\<close> joins as the empty string.
\<close>

fun jsToString :: "jsval \<Rightarrow> jstring" where
  "jsToString JUndefined = asc ''undefined''"
| "jsToString JNull = asc ''null''"
| "jsToString (JBool b) = (if b then asc ''true'' else asc ''false'')"
| "jsToString (JNum i) = intToString i"
| "jsToString (JStr s) = s"
| "jsToString (JArr xs) =
     join (asc '','')
       (map (\<lambda>x. if x = JUndefined \<or> x = JNull then [] else jsToString x) xs)"
| "jsToString (JObj kv) = asc ''[object Object]''"

text \<open>\<open>xs.join(sep)\<close> on an array of unknown values.\<close>

definition joinValues :: "jstring \<Rightarrow> jsval list \<Rightarrow> jstring" where
  "joinValues sep xs =
     join sep (map (\<lambda>x. if x = JUndefined \<or> x = JNull then [] else jsToString x) xs)"

text \<open>\<open>v && typeof v === 'string'\<close> and \<open>typeof v === 'string'\<close>.\<close>

definition truthyString :: "jsval \<Rightarrow> bool" where
  "truthyString v = (case v of JStr s \<Rightarrow> s \<noteq> [] | _ \<Rightarrow> False)"

definition isString :: "jsval \<Rightarrow> bool" where
  "isString v = (case v of JStr s \<Rightarrow> True | _ \<Rightarrow> False)"

text \<open>\<open>v && Array.isArray(v) && v.length > 0\<close>.\<close>

definition nonEmptyArray :: "jsval \<Rightarrow> bool" where
  "nonEmptyArray v = (case v of JArr xs \<Rightarrow> xs \<noteq> [] | _ \<Rightarrow> False)"

definition elements :: "jsval \<Rightarrow> jsval list" where
  "elements v = (case v of JArr xs \<Rightarrow> xs | _ \<Rightarrow> [])"

subsection \<open>The header\<close>

record cursorMDCConfig =
  c_version :: "jstring option"
  c_globs :: "jstring list option"
  c_alwaysApply :: "bool option"
  c_author :: "jstring option"
  c_tags :: "jstring list option"

record conversionResult =
  content :: jstring
  format :: jstring
  warnings :: "jstring list option"
  lossyConversion :: bool
  qualityScore :: int

text \<open>\<open>a?.f\<close> on an optional record, and \<open>a || b\<close> on optional strings.\<close>

definition optField :: "'a option \<Rightarrow> ('a \<Rightarrow> 'b option) \<Rightarrow> 'b option" where
  "optField a f = (case a of None \<Rightarrow> None | Some r \<Rightarrow> f r)"

definition orOpt :: "jstring option \<Rightarrow> jstring option \<Rightarrow> jstring option" where
  "orOpt a b = (case a of None \<Rightarrow> b | Some s \<Rightarrow> if s = [] then b else Some s)"

definition truthy :: "jstring option \<Rightarrow> bool" where
  "truthy a = (case a of None \<Rightarrow> False | Some s \<Rightarrow> s \<noteq> [])"

definition quoted :: "jstring \<Rightarrow> jstring \<Rightarrow> jstring" where
  "quoted pre s = pre @ [34] @ s @ [34]"

definition generateMDCHeader :: "canonicalPackage \<Rightarrow> cursorMDCConfig option \<Rightarrow> jstring" where
  "generateMDCHeader pkg config =
     (let description = optField (p_metadata pkg) m_description;
          globs = (case optField config c_globs of
                     Some g \<Rightarrow> Some g
                   | None \<Rightarrow> optField (p_metadata pkg) m_globs);
          alwaysApply = (case optField config c_alwaysApply of
                           Some b \<Rightarrow> b
                         | None \<Rightarrow> (case optField (p_metadata pkg) m_alwaysApply of
                                      Some b \<Rightarrow> b
                                    | None \<Rightarrow> False));
          title = orOpt (optField (p_metadata pkg) m_title) (Some (p_id pkg));
          version = orOpt (optField config c_version) (optField (p_metadata pkg) m_version);
          tags = optField config c_tags;
          author = optField config c_author
      in join [10]
        ([asc ''---''] @
         (if truthy description then [quoted (asc ''description: '') (the description)] else []) @
         (case globs of
            None \<Rightarrow> []
          | Some g \<Rightarrow> if length g > 0
                      then asc ''globs:'' # map (\<lambda>glob. quoted (asc ''  - '') glob) g else []) @
         [asc ''alwaysApply: '' @ (if alwaysApply then asc ''true'' else asc ''false'')] @
         (if truthy title then [quoted (asc ''# title: '') (the title)] else []) @
         (if truthy version then [quoted (asc ''# version: '') (the version)] else []) @
         (case tags of
            None \<Rightarrow> []
          | Some t \<Rightarrow> if length t > 0
                      then asc ''# tags:'' # map (\<lambda>tag. quoted (asc ''#   - '') tag) t else []) @
         (if truthy author then [quoted (asc ''# author: '') (the author)] else []) @
         [asc ''---'']))"

subsection \<open>The sections\<close>

definition convertMetadata :: "(jstring \<times> jsval) list option \<Rightarrow> fault + jstring" where
  "convertMetadata data =
     (case data of
        None \<Rightarrow> Inl (DestructureNullish (asc ''title''))
      | Some d \<Rightarrow>
          (let title = getProp d (asc ''title'');
               description = getProp d (asc ''description'');
               icon = getProp d (asc ''icon'')
           in Inr (join [10]
             ((if truthyString icon \<and> isString title
               then [asc ''# '' @ jsToString icon @ asc '' '' @ jsToString title]
               else if isString title then [asc ''# '' @ jsToString title]
               else []) @
              (if truthyString description then [[], jsToString description] else [])))))"

definition convertInstructions :: "jstring \<Rightarrow> jstring \<Rightarrow> jstring option \<Rightarrow> jstring" where
  "convertInstructions title text priority =
     join [10]
       ([asc ''## '' @ title, []] @
        (if priority = Some (asc ''high'') then [asc ''**Important:**'', []] else []) @
        [text])"

text \<open>The lines of one rule; \<open>index\<close> counts from 0.\<close>

definition ruleLines :: "bool option \<Rightarrow> nat \<Rightarrow> rule \<Rightarrow> jstring list" where
  "ruleLines ordered index r =
     (let prefix = (if ordered = Some True then natToString (index + 1) @ asc ''.'' else asc ''-'')
      in [prefix @ asc '' '' @ r_content r] @
         (if truthy (r_rationale r)
          then [asc ''   - *Rationale: '' @ the (r_rationale r) @ asc ''*''] else []) @
         (case r_examples r of
            None \<Rightarrow> []
          | Some es \<Rightarrow> map (\<lambda>example. asc ''   - Example: `'' @ example @ asc ''`'') es))"

definition convertRules :: "jstring \<Rightarrow> rule list \<Rightarrow> bool option \<Rightarrow> jstring" where
  "convertRules title items ordered =
     join [10]
       ([asc ''## '' @ title, []] @
        concat (map (\<lambda>(index, r). ruleLines ordered index r) (enumerate 0 items)))"

definition exampleLines :: "example \<Rightarrow> jstring list" where
  "exampleLines ex =
     (let prefix = (if e_good ex = Some False then 10060 # asc '' Bad'' else 9989 # asc '' Good'')
      in [asc ''### '' @ prefix @ asc '': '' @ e_description ex, [],
          asc ''```'' @ (case e_language ex of None \<Rightarrow> [] | Some l \<Rightarrow> l),
          e_code ex, asc ''```'', []])"

definition convertExamples :: "jstring \<Rightarrow> example list \<Rightarrow> jstring" where
  "convertExamples title exs =
     join [10] ([asc ''## '' @ title, []] @ concat (map exampleLines exs))"

definition convertPersona :: "(jstring \<times> jsval) list option \<Rightarrow> fault + jstring" where
  "convertPersona data =
     (case data of
        None \<Rightarrow> Inl (DestructureNullish (asc ''name''))
      | Some d \<Rightarrow>
          (let name = getProp d (asc ''name'');
               role = getProp d (asc ''role'');
               icon = getProp d (asc ''icon'');
               style = getProp d (asc ''style'');
               expertise = getProp d (asc ''expertise'')
           in Inr (join [10]
             ([asc ''## Role'', []] @
              (if truthyString icon \<and> truthyString name \<and> isString role
               then [jsToString icon @ asc '' **'' @ jsToString name @ asc ''** - '' @
                     jsToString role]
               else if truthyString name \<and> isString role
               then [asc ''**'' @ jsToString name @ asc ''** - '' @ jsToString role]
               else if isString role then [jsToString role]
               else []) @
              (if nonEmptyArray style
               then [[], asc ''**Style:** '' @ joinValues (asc '', '') (elements style)]
               else []) @
              (if nonEmptyArray expertise
               then [[], asc ''**Expertise:**''] @
                    map (\<lambda>area. asc ''- '' @ jsToString area) (elements expertise)
               else [])))))"

definition convertContext :: "jstring \<Rightarrow> jstring \<Rightarrow> jstring" where
  "convertContext title text = join [10] [asc ''## '' @ title, [], text]"

text \<open>
  \<open>convertSection(section, warnings)\<close>: the text of the section, or the fault it throws,
  and the warnings array after the call.
\<close>

fun convertSection :: "Section \<Rightarrow> jstring list \<Rightarrow> (fault + jstring) \<times> jstring list" where
  "convertSection (MetadataSection data) ws = (convertMetadata data, ws)"
| "convertSection (InstructionsSection title text priority) ws =
     (Inr (convertInstructions title text priority), ws)"
| "convertSection (RulesSection title items ordered) ws =
     (Inr (convertRules title items ordered), ws)"
| "convertSection (ExamplesSection title exs) ws = (Inr (convertExamples title exs), ws)"
| "convertSection (PersonaSection data) ws = (convertPersona data, ws)"
| "convertSection (ContextSection title text) ws = (Inr (convertContext title text), ws)"
| "convertSection (ToolsSection tools) ws =
     (Inr [], ws @ [asc ''Tools section skipped (Claude-specific)''])"
| "convertSection (CustomSection editorType text) ws =
     (if \<not> truthy editorType \<or> editorType = Some (asc ''cursor'') then (Inr text, ws)
      else (Inr [], ws @ [asc ''Custom '' @ the editorType @ asc '' section skipped'']))"
| "convertSection (UnknownSection ty) ws =
     (Inr [], ws @ [asc ''Unknown section type: '' @ ty])"

text \<open>
  The loop of \<open>convertContent\<close>: \<open>lines\<close> collects the text of each section that has one,
  followed by a blank line; a fault leaves the loop with the warnings pushed so far.
\<close>

fun convertLoop ::
  "Section list \<Rightarrow> jstring list \<Rightarrow> jstring list \<Rightarrow> (fault + jstring list) \<times> jstring list" where
  "convertLoop [] lines ws = (Inr lines, ws)"
| "convertLoop (s # ss) lines ws =
     (case convertSection s ws of
        (Inl e, ws') \<Rightarrow> (Inl e, ws')
      | (Inr sectionContent, ws') \<Rightarrow>
          if sectionContent \<noteq> [] then convertLoop ss (lines @ [sectionContent, []]) ws'
          else convertLoop ss lines ws')"

definition convertContent :: "Section list \<Rightarrow> jstring list \<Rightarrow> (fault + jstring) \<times> jstring list" where
  "convertContent secs ws =
     (case convertLoop secs [] ws of
        (Inl e, ws') \<Rightarrow> (Inl e, ws')
      | (Inr lines, ws') \<Rightarrow> (Inr (trim (join [10] lines)), ws'))"

subsection \<open>The converter and its score\<close>

definition isLossy :: "jstring \<Rightarrow> bool" where
  "isLossy w = (includesStr w (asc ''not supported'') \<or> includesStr w (asc ''skipped''))"

text \<open>
  \<open>message\<close> is the text the engine gives the \<open>message\<close> of the \<open>TypeError\<close> it throws.
\<close>

definition toCursor ::
  "(fault \<Rightarrow> jstring) \<Rightarrow> canonicalPackage \<Rightarrow> cursorMDCConfig option \<Rightarrow> conversionResult" where
  "toCursor message pkg cursorConfig =
     (let mdcHeader = generateMDCHeader pkg cursorConfig in
      case convertContent (p_sections pkg) [] of
        (Inr text, ws) \<Rightarrow>
          (let fullContent = mdcHeader @ [10, 10] @ text;
               lossy = list_ex isLossy ws
           in \<lparr>content = fullContent, format = asc ''cursor'',
               warnings = (if length ws > 0 then Some ws else None),
               lossyConversion = lossy,
               qualityScore = (if lossy then 100 - 10 else 100)\<rparr>)
      | (Inl e, ws) \<Rightarrow>
          \<lparr>content = [], format = asc ''cursor'',
           warnings = Some (ws @ [asc ''Conversion error: '' @ message e]),
           lossyConversion = True, qualityScore = 0\<rparr>)"

section \<open>Converter B: Kiro\<close>

datatype inclusionMode = Always | Manual | FileMatch

record kiroConfig =
  k_inclusion :: "inclusionMode option"
  k_fileMatchPattern :: "jstring option"
  k_domain :: "jstring option"

text \<open>
  Modelled from the spec: \<open>toKiro\<close> of \<open>to-kiro.ts\<close> is not among the source files; only
  its tests are. The converter "requires the caller to supply an inclusion mode; if
  omitted, the converter fails fast with a descriptive error naming the missing
  configuration, and if the chosen mode requires an additional parameter (a file-match
  pattern) and that parameter is absent, it likewise fails fast". The two messages are the
  ones the tests expect the thrown error to carry. What the converter renders once the
  configuration is complete is the parameter \<open>render\<close>.
\<close>

definition toKiro ::
  "(canonicalPackage \<Rightarrow> kiroConfig \<Rightarrow> conversionResult) \<Rightarrow> canonicalPackage \<Rightarrow>
   kiroConfig option \<Rightarrow> jstring + conversionResult" where
  "toKiro render pkg config =
     (case config of
        None \<Rightarrow> Inl (asc ''Kiro format requires inclusion mode'')
      | Some cfg \<Rightarrow>
          (case k_inclusion cfg of
             None \<Rightarrow> Inl (asc ''Kiro format requires inclusion mode'')
           | Some mode \<Rightarrow>
               if mode = FileMatch \<and> k_fileMatchPattern cfg = None
               then Inl (asc ''fileMatch inclusion mode requires fileMatchPattern'')
               else Inr (render pkg cfg)))"

section \<open>Notions the properties are stated with\<close>

subsection \<open>Parser\<close>

text \<open>
  The items and examples of the section being scanned are present when its kind needs
  them: the state in which the non-null assertions of the scanner hold.
\<close>

definition wfSection :: "parsedSection \<Rightarrow> bool" where
  "wfSection cur =
     ((if s_type cur = TRules then s_items cur \<noteq> None else True) \<and>
      (if s_type cur = TExamples then s_examples cur \<noteq> None else True))"

definition wfState :: "pstate \<Rightarrow> bool" where
  "wfState st = (case currentSection st of None \<Rightarrow> True | Some cur \<Rightarrow> wfSection cur)"

text \<open>A rules section whose \<open>ordered\<close> flag is not \<open>false\<close>.\<close>

definition orderedRules :: "Section \<Rightarrow> bool" where
  "orderedRules s = (case s of RulesSection title items ordered \<Rightarrow> ordered \<noteq> Some False | _ \<Rightarrow> False)"

text \<open>A rules section with no item.\<close>

definition emptyRules :: "Section \<Rightarrow> bool" where
  "emptyRules s = (case s of RulesSection title items ordered \<Rightarrow> items = [] | _ \<Rightarrow> False)"

text \<open>A line of a section's body that is neither a heading nor a code fence.\<close>

definition plainLine :: "jstring \<Rightarrow> bool" where
  "plainLine l =
     (\<not> (startsWith l (asc ''# '') \<or> startsWith l (asc ''## '') \<or>
         startsWith l (asc ''### '') \<or> startsWith l (asc ''```'')))"

text \<open>The language tag an opening fence gives its code block.\<close>

definition fenceLanguage :: "jstring \<Rightarrow> jstring option" where
  "fenceLanguage line = (if trim (drop 3 line) = [] then None else Some (trim (drop 3 line)))"

text \<open>
  An engine for the examples: \<open>toLowerCase\<close> maps the ASCII letters, which is what it
  does on the ASCII texts and the two marker characters used below; the YAML loader
  rejects every text, and the examples that use this engine have no front matter.
\<close>

definition noYaml :: "jstring \<Rightarrow> jsval option" where
  "noYaml text = None"

definition asciiEnv :: env where
  "asciiEnv = \<lparr>yaml_load = noYaml, toLowerCase = asciiLower\<rparr>"

definition sampleMetadata :: packageMetadata where
  "sampleMetadata =
     \<lparr>pm_id = asc ''pkg'', pm_name = asc ''Sample'', pm_description = None, pm_author = None,
      pm_tags = None, pm_version = None\<rparr>"

definition taggedMetadata :: packageMetadata where
  "taggedMetadata = sampleMetadata\<lparr>pm_tags := Some [asc ''custom'']\<rparr>"

definition badHeading :: jstring where
  "badHeading = asc ''### '' @ [10060] @ asc '' Bad: missing assertions''"

definition polarityInput :: jstring where
  "polarityInput =
     asc ''## Examples'' @ [10] @ badHeading @ [10] @ asc ''```ts'' @ [10] @
     asc ''expect(x)'' @ [10] @ asc ''```''"

definition roundTripInput :: jstring where
  "roundTripInput =
     asc ''# My Rules'' @ [10, 10] @ asc ''Intro text.'' @ [10, 10] @ asc ''## Guidelines'' @
     [10, 10] @ asc ''- Use strict types'' @ [10] @
     asc ''   - Rationale: fewer runtime errors'' @ [10]"

definition ordinalInput :: jstring where
  "ordinalInput = asc ''## Steps'' @ [10] @ asc ''1. First'' @ [10] @ asc ''2. Second''"

text \<open>Further inputs of the examples.\<close>

definition frontmatterOnlyInput :: jstring where
  "frontmatterOnlyInput = asc ''---'' @ [10] @ asc ''project: demo'' @ [10] @ asc ''---'' @ [10]"

definition unmatchedFenceInput :: jstring where
  "unmatchedFenceInput = asc ''```js'' @ [10] @ asc ''let x = 1''"

definition pythonInput :: jstring where
  "pythonInput = asc ''Use python''"

definition emptyRulesInput :: jstring where
  "emptyRulesInput = asc ''## Rules''"

definition ruleBody :: "jstring list" where
  "ruleBody = [asc ''- Use strict types'', asc ''Plain text'']"

text \<open>A heading line inside the fence that follows the example heading.\<close>

definition headingInFenceInput :: jstring where
  "headingInFenceInput =
     asc ''## Examples'' @ [10] @ badHeading @ [10] @ asc ''```sh'' @ [10] @
     asc ''# install'' @ [10] @ asc ''```''"

definition examplesState :: pstate where
  "examplesState =
     initialState\<lparr>currentSection := Some (newSection TExamples (asc ''Examples'') [])\<rparr>"

subsection \<open>Converter A\<close>

text \<open>A section whose \<open>data\<close> is \<open>undefined\<close> or \<open>null\<close>: the shape that faults.\<close>

definition nullishData :: "Section \<Rightarrow> bool" where
  "nullishData s = (s = MetadataSection None \<or> s = PersonaSection None)"



text \<open>The kinds the converter skips with a warning.\<close>

definition skippedKind :: "Section \<Rightarrow> bool" where
  "skippedKind s =
     (case s of
        ToolsSection tools \<Rightarrow> True
      | CustomSection editorType text \<Rightarrow> truthy editorType \<and> editorType \<noteq> Some (asc ''cursor'')
      | UnknownSection ty \<Rightarrow> True
      | _ \<Rightarrow> False)"

text \<open>The text a section is rendered to, and whether it appears in the output.\<close>

definition sectionText :: "Section \<Rightarrow> jstring" where
  "sectionText s = (case fst (convertSection s []) of Inl e \<Rightarrow> [] | Inr text \<Rightarrow> text)"

definition appears :: "Section \<Rightarrow> bool" where
  "appears s = (sectionText s \<noteq> [])"

definition sectionKind :: "Section \<Rightarrow> jstring" where
  "sectionKind s =
     (case s of
        MetadataSection data \<Rightarrow> asc ''metadata''
      | InstructionsSection title text priority \<Rightarrow> asc ''instructions''
      | RulesSection title items ordered \<Rightarrow> asc ''rules''
      | ExamplesSection title exs \<Rightarrow> asc ''examples''
      | PersonaSection data \<Rightarrow> asc ''persona''
      | ContextSection title text \<Rightarrow> asc ''context''
      | ToolsSection tools \<Rightarrow> asc ''tools''
      | CustomSection editorType text \<Rightarrow> asc ''custom''
      | UnknownSection ty \<Rightarrow> ty)"

definition warningList :: "conversionResult \<Rightarrow> jstring list" where
  "warningList r = (case warnings r of None \<Rightarrow> [] | Some ws \<Rightarrow> ws)"

text \<open>
  The message texts of one engine (V8) for a \<open>data\<close> that is \<open>undefined\<close> (for
  \<open>null\<close> the text ends \<open>as it is null.\<close>; the converter stops at the first fault, so
  one \<open>message\<close> function gives the text of every conversion), and packages for the
  examples: one with a tools section, two with a section whose \<open>data\<close> is
  \<open>undefined\<close>.
\<close>

fun v8Message :: "fault \<Rightarrow> jstring" where
  "v8Message (ReadOfUndefined p) =
     asc ''Cannot read properties of undefined (reading '' @ [39] @ p @ [39] @ asc '')''"
| "v8Message (DestructureNullish p) =
     asc ''Cannot destructure property '' @ [39] @ p @ [39] @ asc '' of '' @ [39] @
     asc ''section.data'' @ [39] @ asc '' as it is undefined.''"

definition samplePackage :: "Section list \<Rightarrow> canonicalPackage" where
  "samplePackage secs =
     \<lparr>p_id = asc ''pkg'', p_version = asc ''1.0.0'', p_name = asc ''Sample'',
      p_description = asc ''A sample'', p_author = [], p_tags = [], p_sections = secs,
      p_sourceFormat = asc ''canonical'', p_metadata = None, p_format = None,
      p_subtype = None\<rparr>"

definition titleSection :: Section where
  "titleSection = MetadataSection (Some [(asc ''title'', JStr (asc ''T''))])"

definition toolsPackage :: canonicalPackage where
  "toolsPackage =
     samplePackage [ToolsSection [asc ''Read''], ContextSection (asc ''B'') (asc ''c''),
                    titleSection]"

definition faultyPackage :: canonicalPackage where
  "faultyPackage = samplePackage [MetadataSection None]"


definition plainPackage :: canonicalPackage where
  "plainPackage = samplePackage [titleSection]"

section \<open>Properties of the parser\<close>

subsection \<open>The scanner never throws\<close>

lemmas scan_defs =
  asc_def parseLine_def startsWith_def initialState_def pushCurrent_def newSection_def
  trim_def isWhitespace_def inferSectionType_def bodyLine_def isListItem_def
  matchesOrdinal_def isDigit_def buildSection_def stripListMarker_def subBullet_def
  stripRationale_def asciiEnv_def asciiLower_def exampleHeading_def openFence_def
  closeFence_def stripMarker_def stripPolarityWord_def startsWithCI_def

lemma no_frontmatter:
  assumes "\<not> startsWith input (asc ''---'' @ [10])"
  shows "parseFrontmatter E input = (\<lparr>project = None, scope = None\<rparr>, input)"
  using assms by (simp add: parseFrontmatter_def matchFrontmatter_def)

lemma wf_newSection: "wfSection (newSection ty t c)"
  by (simp add: wfSection_def newSection_def)

lemma closeFence_total:
  assumes "wfState st"
  shows "\<exists>st'. closeFence st = Inr st' \<and> wfState st' \<and> sections st' = sections st"
  using assms
  by (auto simp: closeFence_def wfState_def wfSection_def split: option.splits)

lemma bodyLine_total:
  assumes "wfState st"
  shows "\<exists>st'. bodyLine st line = Inr st' \<and> wfState st' \<and> sections st' = sections st"
  using assms
  by (auto simp: bodyLine_def wfState_def wfSection_def split: option.splits)

lemma parseLine_total:
  assumes "wfState st"
  shows "\<exists>st'. parseLine E st line following = Inr st' \<and> wfState st' \<and>
     (sections st' = sections st \<or> sections st' = pushCurrent st)"
proof -
  have a: "wfState (st\<lparr>sections := ss, currentSection := Some (newSection ty t c)\<rparr>)" for ss ty t c
    by (simp add: wfState_def wf_newSection)
  have b: "wfState (exampleHeading E st line)"
    using assms by (simp add: wfState_def exampleHeading_def Let_def)
  have c: "wfState (openFence st line)"
    using assms by (simp add: wfState_def openFence_def Let_def)
  have d: "wfState (st\<lparr>currentCodeBlock := x\<rparr>)" for x
    using assms by (simp add: wfState_def)
  show ?thesis
    using closeFence_total[OF assms] bodyLine_total[OF assms, of line] a b c d
    by (auto simp: parseLine_def exampleHeading_def openFence_def Let_def)
qed

lemma buildSection_unordered: "\<not> orderedRules (buildSection cur)"
  by (simp add: buildSection_def orderedRules_def split: sectionType.splits)

lemma pushCurrent_unordered:
  assumes "\<not> list_ex orderedRules (sections st)"
  shows "\<not> list_ex orderedRules (pushCurrent st)"
  using assms by (simp add: pushCurrent_def buildSection_unordered split: option.splits)

lemma parseLines_total:
  assumes "wfState st" "\<not> list_ex orderedRules (sections st)"
  shows "\<exists>st'. parseLines E st ls = Inr st' \<and> wfState st' \<and> \<not> list_ex orderedRules (sections st')"
  using assms
proof (induction ls arbitrary: st)
  case Nil
  then show ?case by simp
next
  case (Cons l ls)
  from parseLine_total[OF Cons.prems(1), of E l ls]
  obtain st1 where st1: "parseLine E st l ls = Inr st1" "wfState st1"
     "sections st1 = sections st \<or> sections st1 = pushCurrent st" by blast
  have "\<not> list_ex orderedRules (sections st1)"
    using st1(3) Cons.prems(2) pushCurrent_unordered[OF Cons.prems(2)] by auto
  with Cons.IH[of st1] st1 show ?case by simp
qed

lemma parseMarkdown_total:
  "\<exists>ss. parseMarkdown E input = Inr ss \<and> \<not> list_ex orderedRules ss"
proof -
  have "wfState initialState" "\<not> list_ex orderedRules (sections initialState)"
    by (simp_all add: wfState_def initialState_def)
  from parseLines_total[OF this, of E "splitLines [] input"]
  obtain st' where "parseLines E initialState (splitLines [] input) = Inr st'"
    "\<not> list_ex orderedRules (sections st')" by blast
  then show ?thesis
    using pushCurrent_unordered[of st'] by (simp add: parseMarkdown_def)
qed

lemma fromAgentsMd_returns:
  "\<exists>pkg ss. fromAgentsMd E input md = Inr pkg \<and>
     parseMarkdown E (snd (parseFrontmatter E input)) = Inr ss \<and>
     \<not> list_ex orderedRules ss \<and>
     p_sections pkg =
       MetadataSection (Some [(asc ''title'', JStr (pm_name md)),
                              (asc ''description'', JStr (p_description pkg))]) # ss \<and>
     p_tags pkg = (case pm_tags md of
                     Some tags \<Rightarrow> tags
                   | None \<Rightarrow> asc ''agents.md'' # inferTags E (snd (parseFrontmatter E input)))"
proof -
  obtain fm body where fb: "parseFrontmatter E input = (fm, body)" by (cases "parseFrontmatter E input")
  from parseMarkdown_total[of E body] obtain ss where "parseMarkdown E body = Inr ss" "\<not> list_ex orderedRules ss" by blast
  then show ?thesis
    by (simp add: fromAgentsMd_def fb setTaxonomy_def Let_def split: option.splits)
qed

subsection \<open>Rules sections are unordered\<close>

text \<open>
  Claim C10. For every input text, every rules section produced by \<open>fromAgentsMd\<close> has
  its \<open>ordered\<close> flag set to \<open>false\<close>, also when the list items of the source carry
  ordinal markers: the parser returns a package, and each rules section among its sections
  has \<open>ordered = false\<close>.
\<close>

theorem rules_sections_unordered:
  "\<exists>pkg. fromAgentsMd E input md = Inr pkg \<and>
     (\<forall>s \<in> set (p_sections pkg). \<forall>title items ordered.
        s = RulesSection title items ordered \<longrightarrow> ordered = Some False)"
proof -
  from fromAgentsMd_returns[of E input md]
  obtain pkg ss where p: "fromAgentsMd E input md = Inr pkg" "\<not> list_ex orderedRules ss"
    "p_sections pkg = MetadataSection (Some [(asc ''title'', JStr (pm_name md)),
                              (asc ''description'', JStr (p_description pkg))]) # ss" by blast
  have "ordered = Some False" if "RulesSection title items ordered \<in> set (p_sections pkg)" for title items ordered
  proof -
    from that p(3) have "RulesSection title items ordered \<in> set ss" by simp
    with p(2) have "\<not> orderedRules (RulesSection title items ordered)"
      by (auto simp: list_ex_iff)
    then show ?thesis by (simp add: orderedRules_def)
  qed
  with p(1) show ?thesis by blast
qed

lemma split_ordinal: "splitLines [] ordinalInput = [asc ''## Steps'', asc ''1. First'', asc ''2. Second'']"
  by (simp add: ordinalInput_def asc_def)

lemma parse_ordinal: "parseMarkdown asciiEnv ordinalInput = Inr [RulesSection (asc ''Steps'')
   [\<lparr>r_content = asc ''1. First'', r_rationale = None, r_examples = None\<rparr>,
    \<lparr>r_content = asc ''2. Second'', r_rationale = None, r_examples = None\<rparr>] (Some False)]"
  by (simp add: parseMarkdown_def split_ordinal) (simp add: scan_defs)

theorem rules_sections_unordered_witness:
  "\<exists>pkg. fromAgentsMd asciiEnv ordinalInput sampleMetadata = Inr pkg \<and>
     RulesSection (asc ''Steps'')
       [\<lparr>r_content = asc ''1. First'', r_rationale = None, r_examples = None\<rparr>,
        \<lparr>r_content = asc ''2. Second'', r_rationale = None, r_examples = None\<rparr>] (Some False)
       \<in> set (p_sections pkg)"
proof -
  have nf: "parseFrontmatter asciiEnv ordinalInput = (\<lparr>project = None, scope = None\<rparr>, ordinalInput)"
    by (rule no_frontmatter) (simp add: ordinalInput_def asc_def startsWith_def)
  from rules_sections_unordered[of asciiEnv ordinalInput sampleMetadata]
  obtain pkg where p: "fromAgentsMd asciiEnv ordinalInput sampleMetadata = Inr pkg"
    "\<forall>s \<in> set (p_sections pkg). \<forall>title items ordered.
        s = RulesSection title items ordered \<longrightarrow> ordered = Some False" by blast
  from fromAgentsMd_returns[of asciiEnv ordinalInput sampleMetadata]
  obtain pkg' ss where q: "fromAgentsMd asciiEnv ordinalInput sampleMetadata = Inr pkg'"
    "parseMarkdown asciiEnv (snd (parseFrontmatter asciiEnv ordinalInput)) = Inr ss"
    "p_sections pkg' =
       MetadataSection (Some [(asc ''title'', JStr (pm_name sampleMetadata)),
                              (asc ''description'', JStr (p_description pkg'))]) # ss" by blast
  from q(2) have "ss = [RulesSection (asc ''Steps'')
       [\<lparr>r_content = asc ''1. First'', r_rationale = None, r_examples = None\<rparr>,
        \<lparr>r_content = asc ''2. Second'', r_rationale = None, r_examples = None\<rparr>] (Some False)]"
    by (simp add: nf parse_ordinal)
  moreover from p(1) q(1) have "pkg' = pkg" by simp
  ultimately show ?thesis using p(1) q(3) by simp
qed

subsection \<open>Degenerate inputs\<close>

lemma parse_empty: "parseMarkdown E [] = Inr []"
  by (simp add: parseMarkdown_def scan_defs)

lemma match_fmOnly: "matchFrontmatter frontmatterOnlyInput = Some (asc ''project: demo'', [])"
  by (simp add: matchFrontmatter_def frontmatterOnlyInput_def asc_def startsWith_def)

lemma split_fmOnly: "splitLines [] frontmatterOnlyInput = [asc ''---'', asc ''project: demo'', asc ''---'', []]"
  by (simp add: frontmatterOnlyInput_def asc_def)

lemma parse_fmOnly: "parseMarkdown E frontmatterOnlyInput = Inr []"
  by (simp add: parseMarkdown_def split_fmOnly) (simp add: scan_defs)

lemma body_fmOnly: "parseMarkdown E (snd (parseFrontmatter E frontmatterOnlyInput)) = Inr []"
  by (cases "yaml_load E (asc ''project: demo'')")
     (simp_all add: parseFrontmatter_def match_fmOnly parse_fmOnly parse_empty)

lemma split_fence: "splitLines [] unmatchedFenceInput = [asc ''```js'', asc ''let x = 1'']"
  by (simp add: unmatchedFenceInput_def asc_def)

lemma parse_fence: "parseMarkdown E unmatchedFenceInput = Inr []"
  by (simp add: parseMarkdown_def split_fence) (simp add: scan_defs)

lemma nofm_fence: "parseFrontmatter E unmatchedFenceInput = (\<lparr>project = None, scope = None\<rparr>, unmatchedFenceInput)"
  by (rule no_frontmatter) (simp add: unmatchedFenceInput_def asc_def startsWith_def)

lemma nofm_empty: "parseFrontmatter E [] = (\<lparr>project = None, scope = None\<rparr>, [])"
  by (rule no_frontmatter) (simp add: asc_def startsWith_def)

text \<open>
  Claim C7. For every package metadata (and every engine), \<open>fromAgentsMd\<close> never
  raises and returns a package whose sections start with the metadata section; this holds
  for every input, so for the empty string, for a string that is only front matter and for
  a string with an unmatched code fence, where the metadata section is the only section.
\<close>

theorem graceful_degradation:
  "(\<exists>pkg rest. fromAgentsMd E input md = Inr pkg \<and>
      p_sections pkg =
        MetadataSection (Some [(asc ''title'', JStr (pm_name md)),
                               (asc ''description'', JStr (p_description pkg))]) # rest) \<and>
   (\<exists>pkg data. fromAgentsMd E [] md = Inr pkg \<and> p_sections pkg = [MetadataSection (Some data)]) \<and>
   (\<exists>pkg data. fromAgentsMd E frontmatterOnlyInput md = Inr pkg \<and>
      p_sections pkg = [MetadataSection (Some data)]) \<and>
   (\<exists>pkg data. fromAgentsMd E unmatchedFenceInput md = Inr pkg \<and>
      p_sections pkg = [MetadataSection (Some data)])"
proof (intro conjI)
  show "\<exists>pkg rest. fromAgentsMd E input md = Inr pkg \<and>
      p_sections pkg =
        MetadataSection (Some [(asc ''title'', JStr (pm_name md)),
                               (asc ''description'', JStr (p_description pkg))]) # rest"
    using fromAgentsMd_returns[of E input md] by blast
  show "\<exists>pkg data. fromAgentsMd E [] md = Inr pkg \<and> p_sections pkg = [MetadataSection (Some data)]"
    using fromAgentsMd_returns[of E "[]" md] by (auto simp: nofm_empty parse_empty)
  show "\<exists>pkg data. fromAgentsMd E frontmatterOnlyInput md = Inr pkg \<and>
      p_sections pkg = [MetadataSection (Some data)]"
    using fromAgentsMd_returns[of E frontmatterOnlyInput md] by (auto simp: body_fmOnly)
  show "\<exists>pkg data. fromAgentsMd E unmatchedFenceInput md = Inr pkg \<and>
      p_sections pkg = [MetadataSection (Some data)]"
    using fromAgentsMd_returns[of E unmatchedFenceInput md] by (auto simp: nofm_fence parse_fence)
qed

subsection \<open>Tags\<close>

lemma inferTags_length: "length (inferTags E body) \<le> 5"
  by (simp add: inferTags_def Let_def)

lemma inferTags_vocabulary: "set (inferTags E body) \<subseteq> set techKeywords \<union> {asc ''codex''}"
proof -
  have "set (take 5 xs) \<subseteq> set xs" for xs :: "jstring list" by (rule set_take_subset)
  then show ?thesis
    unfolding inferTags_def Let_def
    by (rule subset_trans) auto
qed

text \<open>
  Claim C6, amended. The tags of the package are the caller's tags when the caller
  supplies tags, and nothing is inferred then; without them they are \<open>agents.md\<close>
  followed by the inferred tags. The inferred tags are at most 5, come from the keyword
  vocabulary and \<open>codex\<close>, and are the first 5 of: the vocabulary keywords that the
  lower-cased body contains, in vocabulary order, then \<open>codex\<close> when the body contains
  \<open>codex\<close> or \<open>openai\<close>.
\<close>

theorem tags_supplied_or_inferred:
  "map_sum id p_tags (fromAgentsMd E input md) =
     Inr (case pm_tags md of
            Some tags \<Rightarrow> tags
          | None \<Rightarrow> asc ''agents.md'' # inferTags E (snd (parseFrontmatter E input))) \<and>
   length (inferTags E body) \<le> 5 \<and>
   set (inferTags E body) \<subseteq> set techKeywords \<union> {asc ''codex''} \<and>
   inferTags E body =
     take 5 (filter (includesStr (toLowerCase E body)) techKeywords @
             (if includesStr (toLowerCase E body) (asc ''codex'') \<or>
                 includesStr (toLowerCase E body) (asc ''openai'')
              then [asc ''codex''] else []))"
proof -
  from fromAgentsMd_returns[of E input md]
  have "map_sum id p_tags (fromAgentsMd E input md) =
     Inr (case pm_tags md of
            Some tags \<Rightarrow> tags
          | None \<Rightarrow> asc ''agents.md'' # inferTags E (snd (parseFrontmatter E input)))"
    by auto
  moreover have "inferTags E body =
     take 5 (filter (includesStr (toLowerCase E body)) techKeywords @
             (if includesStr (toLowerCase E body) (asc ''codex'') \<or>
                 includesStr (toLowerCase E body) (asc ''openai'')
              then [asc ''codex''] else []))"
    by (simp add: inferTags_def Let_def)
  ultimately show ?thesis
    using inferTags_length inferTags_vocabulary by blast
qed

lemma nofm_python: "parseFrontmatter E pythonInput = (\<lparr>project = None, scope = None\<rparr>, pythonInput)"
  by (rule no_frontmatter) (simp add: pythonInput_def asc_def startsWith_def)

lemma tags_python: "inferTags asciiEnv pythonInput = [asc ''python'']"
  by (simp add: inferTags_def pythonInput_def asciiEnv_def asciiLower_def asc_def techKeywords_def startsWith_def)

text \<open>
  Claim C6 as stated fails: with caller tags \<open>custom\<close> and a body that mentions python,
  the tags are \<open>custom\<close> alone, although \<open>python\<close> is inferred from the body.
\<close>

theorem tags_not_unioned:
  "map_sum id p_tags (fromAgentsMd asciiEnv pythonInput taggedMetadata) = Inr [asc ''custom''] \<and>
   inferTags asciiEnv pythonInput = [asc ''python'']"
  using fromAgentsMd_returns[of asciiEnv pythonInput taggedMetadata]
  by (auto simp: tags_python taggedMetadata_def sampleMetadata_def)

subsection \<open>Items of a rules section\<close>

lemma split_emptyRules: "splitLines [] emptyRulesInput = [asc ''## Rules'']"
  by (simp add: emptyRulesInput_def asc_def)

lemma parse_emptyRules: "parseMarkdown asciiEnv emptyRulesInput = Inr [RulesSection (asc ''Rules'') [] (Some False)]"
  by (simp add: parseMarkdown_def split_emptyRules) (simp add: scan_defs)

lemma nofm_emptyRules: "parseFrontmatter E emptyRulesInput = (\<lparr>project = None, scope = None\<rparr>, emptyRulesInput)"
  by (rule no_frontmatter) (simp add: emptyRulesInput_def asc_def startsWith_def)

text \<open>
  Claim C5 as stated fails: on the input \<open>## Rules\<close> the parser produces a rules
  section with no item.
\<close>

theorem empty_rules_section:
  "map_sum id (list_ex emptyRules \<circ> p_sections) (fromAgentsMd asciiEnv emptyRulesInput sampleMetadata) = Inr True \<and>
   map_sum id (tl \<circ> p_sections) (fromAgentsMd asciiEnv emptyRulesInput sampleMetadata) =
     Inr [RulesSection (asc ''Rules'') [] (Some False)]"
  using fromAgentsMd_returns[of asciiEnv emptyRulesInput sampleMetadata]
  by (auto simp: nofm_emptyRules parse_emptyRules emptyRules_def)

lemma plain_not_heading:
  assumes "plainLine l"
  shows "\<not> startsWith l (asc ''# '')" "\<not> startsWith l (asc ''## '')"
    "\<not> startsWith l (asc ''### '')" "\<not> startsWith l (asc ''```'')"
  using assms by (simp_all add: plainLine_def)

lemma parseLine_plain:
  assumes "plainLine l" "\<not> inCodeBlock st"
  shows "parseLine E st l following = bodyLine st l"
  using assms by (simp add: parseLine_def plain_not_heading)

lemma bodyLine_rules:
  assumes "currentSection st = Some cur" "s_type cur = TRules" "s_items cur = Some items"
  shows "\<exists>st' cur' items'. bodyLine st l = Inr st' \<and> currentSection st' = Some cur' \<and>
          sections st' = sections st \<and> inCodeBlock st' = inCodeBlock st \<and>
          s_type cur' = TRules \<and> s_title cur' = s_title cur \<and> s_items cur' = Some items' \<and>
          length items' = length items + (if isListItem l then 1 else 0)"
  using assms by (simp add: bodyLine_def)

lemma rules_body:
  assumes "\<not> inCodeBlock st" "currentSection st = Some cur" "s_type cur = TRules"
    "s_items cur = Some items" "\<forall>l \<in> set body. plainLine l"
  shows "\<exists>st' cur' items'. parseLines E st (body @ rest) = parseLines E st' rest \<and>
          currentSection st' = Some cur' \<and> sections st' = sections st \<and>
          s_type cur' = TRules \<and> s_title cur' = s_title cur \<and> s_items cur' = Some items' \<and>
          length items' = length items + length (filter isListItem body)"
  using assms
proof (induction body arbitrary: st cur items)
  case Nil
  then show ?case by (intro exI[of _ st] exI[of _ cur] exI[of _ items]) simp
next
  case (Cons l body)
  from Cons.prems have pl: "plainLine l" by simp
  from bodyLine_rules[OF Cons.prems(2,3,4), of l]
  obtain st1 cur1 items1 where b: "bodyLine st l = Inr st1" "currentSection st1 = Some cur1"
    "sections st1 = sections st" "inCodeBlock st1 = inCodeBlock st"
    "s_type cur1 = TRules" "s_title cur1 = s_title cur" "s_items cur1 = Some items1"
    "length items1 = length items + (if isListItem l then 1 else 0)" by blast
  have step: "parseLines E st ((l # body) @ rest) = parseLines E st1 (body @ rest)"
    using parseLine_plain[OF pl Cons.prems(1), of E "body @ rest"] b(1) by simp
  have "\<not> inCodeBlock st1" using Cons.prems(1) b(4) by simp
  from Cons.IH[OF this b(2) b(5) b(7)] Cons.prems(5)
  obtain st' cur' items' where r: "parseLines E st1 (body @ rest) = parseLines E st' rest"
          "currentSection st' = Some cur'" "sections st' = sections st1"
          "s_type cur' = TRules" "s_title cur' = s_title cur1" "s_items cur' = Some items'"
          "length items' = length items1 + length (filter isListItem body)" by auto
  with step b show ?case
    by (intro exI[of _ st'] exI[of _ cur'] exI[of _ items']) simp
qed

text \<open>
  Claim C5, amended. A rules section has one item for each list-item line of its body:
  when a \<open>##\<close> heading classified as rules is scanned outside a code block and is followed
  by body lines that are neither headings nor fences, the section closed after them is a
  rules section with as many items as there are list-item lines among them. It is non-empty
  exactly when there is such a line.
\<close>

theorem rules_items_count:
  assumes "startsWith h (asc ''## '')"
    and "inferSectionType E (trim (drop 3 h)) (body @ rest) = TRules"
    and "\<not> inCodeBlock st"
    and "\<forall>l \<in> set body. plainLine l"
  shows "\<exists>st' items. parseLines E st (h # body @ rest) = parseLines E st' rest \<and>
           pushCurrent st' =
             pushCurrent st @ [RulesSection (trim (drop 3 h)) items (Some False)] \<and>
           length items = length (filter isListItem body)"
proof -
  from assms(1) obtain t where "h = asc ''## '' @ t"
    unfolding startsWith_def by (metis append_take_drop_id)
  then have nh: "\<not> startsWith h (asc ''# '')"
    by (simp add: startsWith_def asc_def)
  let ?cur = "newSection TRules (trim (drop 3 h)) []"
  let ?st1 = "st\<lparr>sections := pushCurrent st, currentSection := Some ?cur\<rparr>"
  have h: "parseLine E st h (body @ rest) = Inr ?st1"
    using assms(1,2) nh by (simp add: parseLine_def)
  have "\<not> inCodeBlock ?st1" "currentSection ?st1 = Some ?cur" "s_type ?cur = TRules"
    "s_items ?cur = Some []"
    using assms(3) by (simp_all add: newSection_def)
  from rules_body[OF this assms(4), of E rest]
  obtain st' cur' items' where r: "parseLines E ?st1 (body @ rest) = parseLines E st' rest"
          "currentSection st' = Some cur'" "sections st' = sections ?st1"
          "s_type cur' = TRules" "s_title cur' = s_title ?cur" "s_items cur' = Some items'"
          "length items' = length (filter isListItem body)" by auto
  let ?items = "map (\<lambda>item. \<lparr>r_content = r_content item, r_rationale = r_rationale item,
                            r_examples = r_examples item\<rparr>) items'"
  have "pushCurrent st' = pushCurrent st @ [RulesSection (trim (drop 3 h)) ?items (Some False)]"
    using r(2-6) by (simp add: pushCurrent_def buildSection_def newSection_def)
  moreover have "parseLines E st (h # body @ rest) = parseLines E st' rest"
    using h r(1) by simp
  ultimately show ?thesis using r(7)
    by (intro exI[of _ st'] exI[of _ ?items]) simp
qed

theorem rules_items_count_witness:
  "startsWith (asc ''## Rules'') (asc ''## '') \<and>
   inferSectionType asciiEnv (trim (drop 3 (asc ''## Rules''))) (ruleBody @ []) = TRules \<and>
   \<not> inCodeBlock initialState \<and>
   list_all plainLine ruleBody \<and>
   (\<exists>st' items. parseLines asciiEnv initialState (asc ''## Rules'' # ruleBody @ []) =
        parseLines asciiEnv st' [] \<and>
      pushCurrent st' =
        pushCurrent initialState @
          [RulesSection (trim (drop 3 (asc ''## Rules''))) items (Some False)] \<and>
      length items = length (filter isListItem ruleBody))"
proof -
  have a: "startsWith (asc ''## Rules'') (asc ''## '')"
    by (simp add: startsWith_def asc_def)
  have b: "inferSectionType asciiEnv (trim (drop 3 (asc ''## Rules''))) (ruleBody @ []) = TRules"
    by (simp add: scan_defs)
  have c: "\<not> inCodeBlock initialState" by (simp add: initialState_def)
  have d: "list_all plainLine ruleBody"
    by (simp add: ruleBody_def plainLine_def startsWith_def asc_def)
  then have d': "\<forall>l \<in> set ruleBody. plainLine l" by (simp add: list_all_iff)
  from rules_items_count[OF a b c d'] a b c d show ?thesis by simp
qed

subsection \<open>The round-trip scenario\<close>

lemma split_roundTrip:
  "splitLines [] roundTripInput =
     [asc ''# My Rules'', [], asc ''Intro text.'', [], asc ''## Guidelines'', [],
      asc ''- Use strict types'', asc ''   - Rationale: fewer runtime errors'', []]"
  by (simp add: roundTripInput_def asc_def)

lemma parse_roundTrip:
  assumes "toLowerCase E (asc ''Guidelines'') = asc ''guidelines''"
  shows "parseMarkdown E roundTripInput =
     Inr [ContextSection (asc ''Project Overview'') (asc ''My Rules'' @ [10] @ asc ''Intro text.''),
          RulesSection (asc ''Guidelines'')
            [\<lparr>r_content = asc ''Use strict types'',
              r_rationale = Some (asc ''fewer runtime errors''), r_examples = None\<rparr>]
            (Some False)]"
  using assms
  by (simp add: parseMarkdown_def split_roundTrip) (simp add: scan_defs)

lemma nofm_roundTrip:
  "parseFrontmatter E roundTripInput = (\<lparr>project = None, scope = None\<rparr>, roundTripInput)"
  by (rule no_frontmatter) (simp add: roundTripInput_def asc_def startsWith_def)

text \<open>
  Claim C2. On the round-trip input the parser produces, after the prepended metadata
  section, exactly one context section titled \<open>Project Overview\<close> whose content contains
  \<open>My Rules\<close>, and exactly one rules section titled \<open>Guidelines\<close> with exactly one rule,
  of content \<open>Use strict types\<close> and rationale \<open>fewer runtime errors\<close>. The engine's
  \<open>toLowerCase\<close> is only asked to lower-case the title \<open>Guidelines\<close>.
\<close>

theorem round_trip_scenario:
  assumes "toLowerCase E (asc ''Guidelines'') = asc ''guidelines''"
  shows "\<exists>pkg. fromAgentsMd E roundTripInput md = Inr pkg \<and>
     p_sections pkg =
       [MetadataSection (Some [(asc ''title'', JStr (pm_name md)),
                               (asc ''description'', JStr (p_description pkg))]),
        ContextSection (asc ''Project Overview'') (asc ''My Rules'' @ [10] @ asc ''Intro text.''),
        RulesSection (asc ''Guidelines'')
          [\<lparr>r_content = asc ''Use strict types'',
            r_rationale = Some (asc ''fewer runtime errors''), r_examples = None\<rparr>]
          (Some False)] \<and>
     includesStr (asc ''My Rules'' @ [10] @ asc ''Intro text.'') (asc ''My Rules'')"
proof -
  have "includesStr (asc ''My Rules'' @ [10] @ asc ''Intro text.'') (asc ''My Rules'')"
    by (simp add: asc_def startsWith_def)
  then show ?thesis
    using fromAgentsMd_returns[of E roundTripInput md] parse_roundTrip[OF assms]
    by (auto simp: nofm_roundTrip)
qed

theorem round_trip_scenario_witness:
  "toLowerCase asciiEnv (asc ''Guidelines'') = asc ''guidelines'' \<and>
   (\<exists>pkg. fromAgentsMd asciiEnv roundTripInput sampleMetadata = Inr pkg \<and>
     p_sections pkg =
       [MetadataSection (Some [(asc ''title'', JStr (asc ''Sample'')),
                               (asc ''description'', JStr (p_description pkg))]),
        ContextSection (asc ''Project Overview'') (asc ''My Rules'' @ [10] @ asc ''Intro text.''),
        RulesSection (asc ''Guidelines'')
          [\<lparr>r_content = asc ''Use strict types'',
            r_rationale = Some (asc ''fewer runtime errors''), r_examples = None\<rparr>]
          (Some False)])"
proof -
  have l: "toLowerCase asciiEnv (asc ''Guidelines'') = asc ''guidelines''"
    by (simp add: asciiEnv_def asciiLower_def asc_def)
  from round_trip_scenario[OF l, of sampleMetadata] l show ?thesis
    by (auto simp: sampleMetadata_def)
qed

subsection \<open>The example polarity scenario\<close>

lemma split_polarity:
  "splitLines [] polarityInput =
     [asc ''## Examples'', badHeading, asc ''```ts'', asc ''expect(x)'', asc ''```'']"
  by (simp add: polarityInput_def badHeading_def asc_def)

lemma parse_polarity:
  "parseMarkdown asciiEnv polarityInput =
     Inr [ExamplesSection (asc ''Examples'')
            [\<lparr>e_description = asc ''Bad: missing assertions'', e_code = asc ''expect(x)'',
              e_language = Some (asc ''ts''), e_good = Some False\<rparr>]]"
  by (simp add: parseMarkdown_def split_polarity) (simp add: scan_defs badHeading_def)

lemma nofm_polarity:
  "parseFrontmatter E polarityInput = (\<lparr>project = None, scope = None\<rparr>, polarityInput)"
  by (rule no_frontmatter) (simp add: polarityInput_def asc_def startsWith_def)

text \<open>
  Claim C1 as stated fails: inside an examples section, the heading
  \<open>### (U+274C) Bad: missing assertions\<close> followed by a fenced block yields an example
  whose description is \<open>Bad: missing assertions\<close>, not \<open>missing assertions\<close>.
\<close>

theorem bad_prefix_kept:
  "map_sum id (tl \<circ> p_sections) (fromAgentsMd asciiEnv polarityInput sampleMetadata) =
     Inr [ExamplesSection (asc ''Examples'')
            [\<lparr>e_description = asc ''Bad: missing assertions'', e_code = asc ''expect(x)'',
              e_language = Some (asc ''ts''), e_good = Some False\<rparr>]] \<and>
   asc ''Bad: missing assertions'' \<noteq> asc ''missing assertions''"
  using fromAgentsMd_returns[of asciiEnv polarityInput sampleMetadata]
  by (auto simp: nofm_polarity parse_polarity asc_def)

lemma fence_not_heading:
  assumes "startsWith l (asc ''```'')"
  shows "\<not> startsWith l (asc ''# '')" "\<not> startsWith l (asc ''## '')"
    "\<not> startsWith l (asc ''### '')"
proof -
  from assms obtain t where "l = asc ''```'' @ t"
    unfolding startsWith_def by (metis append_take_drop_id)
  then show "\<not> startsWith l (asc ''# '')" "\<not> startsWith l (asc ''## '')"
    "\<not> startsWith l (asc ''### '')"
    by (simp_all add: startsWith_def asc_def)
qed

lemma code_lines:
  assumes "inCodeBlock st" "currentCodeBlock st = Some cb" "\<forall>l \<in> set code. plainLine l"
  shows "parseLines E st (code @ rest) =
     parseLines E (st\<lparr>currentCodeBlock := Some (cb\<lparr>cb_code := cb_code cb @ code\<rparr>)\<rparr>) rest"
  using assms
proof (induction code arbitrary: st cb)
  case Nil
  have "st\<lparr>currentCodeBlock := Some cb\<rparr> = st" using Nil.prems(2) by simp
  then show ?case by simp
next
  case (Cons l code)
  let ?st1 = "st\<lparr>currentCodeBlock := Some (cb\<lparr>cb_code := cb_code cb @ [l]\<rparr>)\<rparr>"
  have "parseLine E st l (code @ rest) = Inr ?st1"
    using Cons.prems by (simp add: parseLine_def plain_not_heading)
  moreover have "inCodeBlock ?st1" "currentCodeBlock ?st1 = Some (cb\<lparr>cb_code := cb_code cb @ [l]\<rparr>)"
    using Cons.prems by simp_all
  from Cons.IH[OF this] Cons.prems(3)
  have "parseLines E ?st1 (code @ rest) =
     parseLines E (?st1\<lparr>currentCodeBlock := Some (cb\<lparr>cb_code := cb_code cb @ [l]\<rparr>\<lparr>cb_code := cb_code (cb\<lparr>cb_code := cb_code cb @ [l]\<rparr>) @ code\<rparr>)\<rparr>) rest"
    by simp
  ultimately show ?case by simp
qed

text \<open>
  The scanner tests for headings before it tests for an open code block, so a line of the
  fenced code that begins \<open># \<close>, \<open>## \<close> or \<open>### \<close> is read as a heading: here the
  comment line of a shell block closes the examples section, which gets no example.
\<close>

lemma split_headingInFence:
  "splitLines [] headingInFenceInput =
     [asc ''## Examples'', badHeading, asc ''```sh'', asc ''# install'', asc ''```'']"
  by (simp add: headingInFenceInput_def badHeading_def asc_def)

lemma heading_inside_fence:
  "parseMarkdown asciiEnv headingInFenceInput =
     Inr [ExamplesSection (asc ''Examples'') [],
          ContextSection (asc ''Project Overview'')
            (asc ''install'' @ [10] @ asc ''```sh'' @ [10, 10] @ asc ''```'')]"
  by (simp add: parseMarkdown_def split_headingInFence)
     (simp add: scan_defs badHeading_def fenced_def)

text \<open>
  Claim C1, amended. Inside an examples section (one that has its list of examples, as
  every section of that kind the scanner opens has) and outside a code block, the heading
  \<open>### (U+274C) Bad: missing assertions\<close> followed by a fenced code block (an opening
  fence, code lines none of which begins with \<open># \<close>, \<open>## \<close>, \<open>### \<close> or three
  back-ticks, a closing fence) adds to the section an example whose description is
  exactly \<open>Bad: missing assertions\<close> (the marker and the white space after it are
  removed, the word \<open>Bad:\<close> is kept), whose code is the code lines and whose \<open>good\<close>
  flag is \<open>false\<close>. The engine's \<open>toLowerCase\<close> is only asked to lower-case the
  heading's text.
\<close>

theorem bad_example_recorded:
  assumes "currentSection st = Some cur" and "s_type cur = TExamples"
    and "s_examples cur = Some exs"
    and "\<not> inCodeBlock st"
    and "toLowerCase E (10060 # asc '' Bad: missing assertions'') =
           10060 # asc '' bad: missing assertions''"
    and "startsWith opener (asc ''```'')" and "startsWith closer (asc ''```'')"
    and "\<forall>l \<in> set code. plainLine l"
  shows "\<exists>st'. parseLines E st ([badHeading, opener] @ code @ closer # rest) =
           parseLines E st' rest \<and>
         pushCurrent st' =
           sections st @
           [ExamplesSection (s_title cur) (exs @
              [\<lparr>e_description = asc ''Bad: missing assertions'', e_code = join [10] code,
                e_language = fenceLanguage opener, e_good = Some False\<rparr>])]"
proof -
  let ?cb0 = "\<lparr>cb_description = asc ''Bad: missing assertions'', cb_code = [],
            cb_language = None, cb_good = Some False\<rparr>"
  let ?st1 = "st\<lparr>currentCodeBlock := Some ?cb0\<rparr>"
  have h: "parseLine E st badHeading following = Inr ?st1" for following
    using assms(5)
    by (simp add: parseLine_def exampleHeading_def badHeading_def asc_def startsWith_def
        trim_def isWhitespace_def stripMarker_def stripPolarityWord_def startsWithCI_def
        asciiLower_def)
  have no: "\<not> startsWith opener (asc ''# '')" "\<not> startsWith opener (asc ''## '')"
    "\<not> startsWith opener (asc ''### '')"
    "\<not> startsWith closer (asc ''# '')" "\<not> startsWith closer (asc ''## '')"
    "\<not> startsWith closer (asc ''### '')"
    using fence_not_heading[OF assms(6)] fence_not_heading[OF assms(7)] by simp_all
  let ?cb1 = "?cb0\<lparr>cb_language := fenceLanguage opener\<rparr>"
  let ?st2 = "?st1\<lparr>inCodeBlock := True, currentCodeBlock := Some ?cb1\<rparr>"
  have o: "parseLine E ?st1 opener following = Inr ?st2" for following
    using assms(4,6) no by (simp add: parseLine_def openFence_def fenceLanguage_def Let_def)
  let ?cb2 = "?cb1\<lparr>cb_code := cb_code ?cb1 @ code\<rparr>"
  let ?st3 = "?st2\<lparr>currentCodeBlock := Some ?cb2\<rparr>"
  have c: "parseLines E ?st2 (code @ closer # rest) = parseLines E ?st3 (closer # rest)"
    by (rule code_lines) (use assms(8) in simp_all)
  let ?st4 = "st\<lparr>inCodeBlock := False,
           currentSection := Some (cur\<lparr>s_examples := Some (exs @
             [\<lparr>e_description = asc ''Bad: missing assertions'', e_code = join [10] code,
               e_language = fenceLanguage opener, e_good = Some False\<rparr>])\<rparr>),
           currentCodeBlock := None\<rparr>"
  have e: "parseLine E ?st3 closer rest = Inr ?st4"
    using assms(1,2,3,7) no by (simp add: parseLine_def closeFence_def)
  have "parseLines E st ([badHeading, opener] @ code @ closer # rest) = parseLines E ?st4 rest"
    using h o c e by simp
  moreover have "pushCurrent ?st4 =
           sections st @
           [ExamplesSection (s_title cur) (exs @
              [\<lparr>e_description = asc ''Bad: missing assertions'', e_code = join [10] code,
                e_language = fenceLanguage opener, e_good = Some False\<rparr>])]"
    using assms(2) by (simp add: pushCurrent_def buildSection_def)
  ultimately show ?thesis by blast
qed

theorem bad_example_recorded_witness:
  "currentSection examplesState = Some (newSection TExamples (asc ''Examples'') []) \<and>
   s_type (newSection TExamples (asc ''Examples'') []) = TExamples \<and>
   s_examples (newSection TExamples (asc ''Examples'') []) = Some [] \<and>
   \<not> inCodeBlock examplesState \<and>
   toLowerCase asciiEnv (10060 # asc '' Bad: missing assertions'') =
     10060 # asc '' bad: missing assertions'' \<and>
   startsWith (asc ''```ts'') (asc ''```'') \<and> startsWith (asc ''```'') (asc ''```'') \<and>
   list_all plainLine [asc ''expect(x)''] \<and>
   (\<exists>st'. parseLines asciiEnv examplesState
            ([badHeading, asc ''```ts''] @ [asc ''expect(x)''] @ asc ''```'' # []) = Inr st' \<and>
      pushCurrent st' =
        [ExamplesSection (asc ''Examples'')
           [\<lparr>e_description = asc ''Bad: missing assertions'', e_code = asc ''expect(x)'',
             e_language = Some (asc ''ts''), e_good = Some False\<rparr>]])"
proof -
  let ?cur = "newSection TExamples (asc ''Examples'') []"
  have a: "currentSection examplesState = Some ?cur" by (simp add: examplesState_def)
  have b: "s_type ?cur = TExamples" by (simp add: newSection_def)
  have c: "s_examples ?cur = Some []" by (simp add: newSection_def)
  have d: "\<not> inCodeBlock examplesState" by (simp add: examplesState_def initialState_def)
  have e: "toLowerCase asciiEnv (10060 # asc '' Bad: missing assertions'') =
     10060 # asc '' bad: missing assertions''"
    by (simp add: asciiEnv_def asciiLower_def asc_def)
  have f: "startsWith (asc ''```ts'') (asc ''```'')" "startsWith (asc ''```'') (asc ''```'')"
    by (simp_all add: startsWith_def asc_def)
  have g: "list_all plainLine [asc ''expect(x)'']"
    by (simp add: plainLine_def startsWith_def asc_def)
  then have g': "\<forall>l \<in> set [asc ''expect(x)'']. plainLine l" by simp
  have s: "sections examplesState = []" "s_title ?cur = asc ''Examples''"
    by (simp_all add: examplesState_def initialState_def newSection_def)
  have l: "fenceLanguage (asc ''```ts'') = Some (asc ''ts'')"
    by (simp add: fenceLanguage_def asc_def trim_def isWhitespace_def)
  from bad_example_recorded[OF a b c d e f g', of "[]"] a b c d e f g s l
  show ?thesis by simp
qed

section \<open>Properties of the converters\<close>

subsection \<open>The loop over the sections\<close>

lemma convertSection_fst: "fst (convertSection s ws) = fst (convertSection s [])"
  by (cases s) simp_all

lemma convertSection_snd: "snd (convertSection s ws) = ws @ snd (convertSection s [])"
  by (cases s) simp_all

lemma convertSection_fault:
  "(\<exists>e. fst (convertSection s ws) = Inl e) = nullishData s"
  by (cases s) (auto simp: nullishData_def convertMetadata_def convertPersona_def Let_def split: option.splits)

lemma convertSection_fault_kind:
  assumes "fst (convertSection s ws) = Inl e"
  shows "e = DestructureNullish (asc ''title'') \<or> e = DestructureNullish (asc ''name'')"
  using assms
  by (cases s) (auto simp: convertMetadata_def convertPersona_def Let_def split: option.splits if_splits)

lemma convertSection_ok:
  assumes "\<not> nullishData s"
  shows "convertSection s ws = (Inr (sectionText s), ws @ snd (convertSection s []))"
proof -
  from assms convertSection_fault[of s "[]"] obtain t where "fst (convertSection s []) = Inr t"
    by (cases "fst (convertSection s [])") auto
  then have "fst (convertSection s ws) = Inr (sectionText s)"
    by (simp add: sectionText_def convertSection_fst[of s ws])
  with convertSection_snd[of s ws] show ?thesis
    by (cases "convertSection s ws") simp
qed

lemma convertLoop_ok:
  assumes "\<not> list_ex nullishData secs"
  shows "convertLoop secs lines ws =
     (Inr (lines @ concat (map (\<lambda>s. [sectionText s, []]) (filter appears secs))),
      ws @ concat (map (\<lambda>s. snd (convertSection s [])) secs))"
  using assms
proof (induction secs arbitrary: lines ws)
  case Nil
  then show ?case by simp
next
  case (Cons s secs)
  then have "\<not> nullishData s" "\<not> list_ex nullishData secs" by simp_all
  with Cons.IH convertSection_ok[of s ws] show ?case
    by (simp add: appears_def)
qed

lemma convertLoop_fault:
  assumes "list_ex nullishData secs"
  shows "\<exists>e ws'. convertLoop secs lines ws = (Inl e, ws') \<and>
     (e = DestructureNullish (asc ''title'') \<or> e = DestructureNullish (asc ''name''))"
  using assms
proof (induction secs arbitrary: lines ws)
  case Nil
  then show ?case by simp
next
  case (Cons s secs)
  show ?case
  proof (cases "nullishData s")
    case True
    with convertSection_fault[of s ws] obtain e where e: "fst (convertSection s ws) = Inl e" by blast
    with convertSection_fault_kind[OF e] show ?thesis
      by (cases "convertSection s ws") auto
  next
    case False
    with Cons.prems have "list_ex nullishData secs" by simp
    from Cons.IH[OF this] convertSection_ok[OF False, of ws] show ?thesis
      by auto
  qed
qed

lemma toCursor_ok:
  assumes "\<not> list_ex nullishData (p_sections pkg)"
  shows "\<exists>ws. toCursor message pkg cfg =
     \<lparr>content = generateMDCHeader pkg cfg @ [10, 10] @
         trim (join [10] (concat (map (\<lambda>s. [sectionText s, []]) (filter appears (p_sections pkg))))),
      format = asc ''cursor'',
      warnings = (if length ws > 0 then Some ws else None),
      lossyConversion = list_ex isLossy ws,
      qualityScore = (if list_ex isLossy ws then 90 else 100)\<rparr>"
  using convertLoop_ok[OF assms, of "[]" "[]"]
  by (intro exI[of _ "concat (map (\<lambda>s. snd (convertSection s [])) (p_sections pkg))"])
     (simp add: toCursor_def convertContent_def Let_def)

lemma toCursor_fault:
  assumes "list_ex nullishData (p_sections pkg)"
  shows "\<exists>ws e. toCursor message pkg cfg =
     \<lparr>content = [], format = asc ''cursor'',
      warnings = Some (ws @ [asc ''Conversion error: '' @ message e]),
      lossyConversion = True, qualityScore = 0\<rparr> \<and>
     (e = DestructureNullish (asc ''title'') \<or> e = DestructureNullish (asc ''name''))"
proof -
  from convertLoop_fault[OF assms, of "[]" "[]"]
  obtain e ws' where "convertLoop (p_sections pkg) [] [] = (Inl e, ws')"
     "e = DestructureNullish (asc ''title'') \<or> e = DestructureNullish (asc ''name'')" by blast
  then show ?thesis
    by (intro exI[of _ ws'] exI[of _ e]) (simp add: toCursor_def convertContent_def Let_def)
qed

subsection \<open>Score, faults and order\<close>

text \<open>
  Claim C4, amended. For every package and configuration, \<open>lossyConversion = false\<close>
  implies \<open>qualityScore = 100\<close>, and a warning that contains \<open>not supported\<close> or
  \<open>skipped\<close> implies \<open>lossyConversion = true\<close> and \<open>qualityScore < 100\<close>. When no section
  faults, \<open>lossyConversion\<close> is true exactly when some warning is lossy, and the score is
  \<open>100 - 10\<close> then and 100 otherwise, so warnings that are not lossy do not reduce it. When
  a section faults, the score is 0 and \<open>lossyConversion\<close> is true whatever the warnings
  are.
\<close>

theorem score_rule:
  "(\<not> lossyConversion (toCursor message pkg cfg) \<longrightarrow>
      qualityScore (toCursor message pkg cfg) = 100) \<and>
   (list_ex isLossy (warningList (toCursor message pkg cfg)) \<longrightarrow>
      lossyConversion (toCursor message pkg cfg) \<and>
      qualityScore (toCursor message pkg cfg) < 100) \<and>
   (\<not> list_ex nullishData (p_sections pkg) \<longrightarrow>
      lossyConversion (toCursor message pkg cfg) =
        list_ex isLossy (warningList (toCursor message pkg cfg)) \<and>
      qualityScore (toCursor message pkg cfg) =
        (if list_ex isLossy (warningList (toCursor message pkg cfg)) then 90 else 100)) \<and>
   (list_ex nullishData (p_sections pkg) \<longrightarrow>
      lossyConversion (toCursor message pkg cfg) \<and>
      qualityScore (toCursor message pkg cfg) = 0)"
proof (cases "list_ex nullishData (p_sections pkg)")
  case True
  from toCursor_fault[OF True, of message cfg] show ?thesis
    using True by auto
next
  case False
  from toCursor_ok[OF False, of message cfg]
  obtain ws where r: "toCursor message pkg cfg =
     \<lparr>content = generateMDCHeader pkg cfg @ [10, 10] @
         trim (join [10] (concat (map (\<lambda>s. [sectionText s, []]) (filter appears (p_sections pkg))))),
      format = asc ''cursor'',
      warnings = (if length ws > 0 then Some ws else None),
      lossyConversion = list_ex isLossy ws,
      qualityScore = (if list_ex isLossy ws then 90 else 100)\<rparr>" by blast
  have "warningList (toCursor message pkg cfg) = ws"
    by (cases ws) (simp_all add: r warningList_def)
  with r False show ?thesis by simp
qed






lemma skipped_no_text: "skippedKind s \<Longrightarrow> \<not> appears s"
  by (cases s) (auto simp: skippedKind_def appears_def sectionText_def)

text \<open>
  Claim C9. The output of \<open>toCursor\<close> is the header followed by the texts of the
  sections that have one, each followed by a blank line, in the order of the input's
  sections: the sections that appear are the input's sections filtered, never reordered
  (and none appears when a section faults, where the content is empty). No skipped kind
  (tools, a custom section of another editor, an unknown type) appears, and the kinds that
  appear are a subsequence of the kinds of the input.
\<close>

theorem section_order_preserved:
  "content (toCursor message pkg cfg) =
     (if list_ex nullishData (p_sections pkg) then []
      else generateMDCHeader pkg cfg @ [10, 10] @
           trim (join [10] (concat (map (\<lambda>s. [sectionText s, []])
                                      (filter appears (p_sections pkg)))))) \<and>
   filter appears (p_sections pkg) =
     filter (\<lambda>s. \<not> skippedKind s \<and> sectionText s \<noteq> []) (p_sections pkg) \<and>
   subseq (map sectionKind (filter appears (p_sections pkg)))
          (map sectionKind (p_sections pkg))"
proof -
  have "filter appears (p_sections pkg) =
       filter (\<lambda>s. \<not> skippedKind s \<and> sectionText s \<noteq> []) (p_sections pkg)"
    by (rule filter_cong) (use skipped_no_text in \<open>auto simp: appears_def\<close>)
  moreover have "subseq (map sectionKind (filter appears (p_sections pkg)))
            (map sectionKind (p_sections pkg))"
    by (simp add: subseq_map)
  moreover have "content (toCursor message pkg cfg) =
     (if list_ex nullishData (p_sections pkg) then []
      else generateMDCHeader pkg cfg @ [10, 10] @
           trim (join [10] (concat (map (\<lambda>s. [sectionText s, []])
                                      (filter appears (p_sections pkg))))))"
  proof (cases "list_ex nullishData (p_sections pkg)")
    case True
    with toCursor_fault[OF True, of message cfg] show ?thesis by auto
  next
    case False
    with toCursor_ok[OF False, of message cfg] show ?thesis by auto
  qed
  ultimately show ?thesis by blast
qed

subsection \<open>Examples of conversions\<close>

lemmas convert_defs = toCursor_def convertContent_def generateMDCHeader_def samplePackage_def
  titleSection_def optField_def orOpt_def truthy_def quoted_def convertMetadata_def
  convertContext_def getProp_def truthyString_def isString_def asc_def trim_def
  isWhitespace_def isLossy_def startsWith_def warningList_def nullishData_def

lemma toCursor_tools:
  "toCursor v8Message toolsPackage None =
     \<lparr>content = asc ''---'' @ [10] @ asc ''alwaysApply: false'' @ [10] @
        asc ''# title: '' @ [34] @ asc ''pkg'' @ [34] @ [10] @ asc ''---'' @ [10, 10] @
        asc ''## B'' @ [10, 10] @ asc ''c'' @ [10, 10] @ asc ''# T'',
      format = asc ''cursor'',
      warnings = Some [asc ''Tools section skipped (Claude-specific)''],
      lossyConversion = True, qualityScore = 90\<rparr>"
  by (simp add: toolsPackage_def convert_defs)

lemma toCursor_faulty:
  "toCursor v8Message faultyPackage None =
     \<lparr>content = [], format = asc ''cursor'',
      warnings = Some [asc ''Conversion error: '' @ v8Message (DestructureNullish (asc ''title''))],
      lossyConversion = True, qualityScore = 0\<rparr>"
  by (simp add: faultyPackage_def convert_defs)

lemma toCursor_plain:
  "toCursor v8Message plainPackage None =
     \<lparr>content = asc ''---'' @ [10] @ asc ''alwaysApply: false'' @ [10] @
        asc ''# title: '' @ [34] @ asc ''pkg'' @ [34] @ [10] @ asc ''---'' @ [10, 10] @ asc ''# T'',
      format = asc ''cursor'', warnings = None,
      lossyConversion = False, qualityScore = 100\<rparr>"
  by (simp add: plainPackage_def convert_defs)

text \<open>
  A package whose only section is a metadata section with a title and a description, as
  in the converter's tests of a package without icon and of conversion errors: the shape
  is well-formed, nothing faults and the score is 100.
\<close>

lemma toCursor_wellformed_data:
  assumes "p_sections pkg =
     [MetadataSection (Some [(asc ''title'', JStr title),
                             (asc ''description'', JStr description)])]"
  shows "qualityScore (toCursor message pkg cfg) = 100 \<and>
     \<not> lossyConversion (toCursor message pkg cfg) \<and>
     warnings (toCursor message pkg cfg) = None"
  using assms
  by (simp add: toCursor_def convertContent_def convertMetadata_def getProp_def
      truthyString_def isString_def asc_def Let_def)

lemma faulty_warning_not_lossy:
  "\<not> isLossy (asc ''Conversion error: '' @ v8Message (DestructureNullish (asc ''title'')))"
  by (simp add: isLossy_def asc_def startsWith_def)

text \<open>
  Claim C4 as stated fails: for a package whose metadata section has no \<open>data\<close>, the only
  warning is the conversion error, which is not lossy, and yet \<open>lossyConversion\<close> is true
  and the score is 0, not 100.
\<close>

theorem fault_zero_without_lossy_warning:
  "warningList (toCursor v8Message faultyPackage None) =
     [asc ''Conversion error: '' @ v8Message (DestructureNullish (asc ''title''))] \<and>
   \<not> list_ex isLossy (warningList (toCursor v8Message faultyPackage None)) \<and>
   lossyConversion (toCursor v8Message faultyPackage None) \<and>
   qualityScore (toCursor v8Message faultyPackage None) = 0"
  using faulty_warning_not_lossy by (simp add: toCursor_faulty warningList_def)

theorem score_rule_witness:
  "\<not> lossyConversion (toCursor v8Message plainPackage None) \<and>
   qualityScore (toCursor v8Message plainPackage None) = 100 \<and>
   \<not> list_ex nullishData (p_sections toolsPackage) \<and>
   list_ex isLossy (warningList (toCursor v8Message toolsPackage None)) \<and>
   lossyConversion (toCursor v8Message toolsPackage None) \<and>
   qualityScore (toCursor v8Message toolsPackage None) = 90 \<and>
   list_ex nullishData (p_sections faultyPackage) \<and>
   lossyConversion (toCursor v8Message faultyPackage None) \<and>
   qualityScore (toCursor v8Message faultyPackage None) = 0"
proof -
  have a: "\<not> lossyConversion (toCursor v8Message plainPackage None)"
    by (simp add: toCursor_plain)
  have b: "\<not> list_ex nullishData (p_sections toolsPackage)"
    by (simp add: toolsPackage_def samplePackage_def titleSection_def nullishData_def)
  have c: "list_ex isLossy (warningList (toCursor v8Message toolsPackage None))"
    by (simp add: toCursor_tools warningList_def isLossy_def asc_def startsWith_def)
  have d: "list_ex nullishData (p_sections faultyPackage)"
    by (simp add: faultyPackage_def samplePackage_def nullishData_def)
  from score_rule[of v8Message plainPackage None] a
  have "qualityScore (toCursor v8Message plainPackage None) = 100" by blast
  moreover from score_rule[of v8Message toolsPackage None] b c
  have "lossyConversion (toCursor v8Message toolsPackage None) \<and>
     qualityScore (toCursor v8Message toolsPackage None) = 90" by simp
  moreover from score_rule[of v8Message faultyPackage None] d
  have "lossyConversion (toCursor v8Message faultyPackage None) \<and>
     qualityScore (toCursor v8Message faultyPackage None) = 0" by blast
  ultimately show ?thesis using a b c d by blast
qed


theorem section_order_preserved_witness:
  "\<not> list_ex nullishData (p_sections toolsPackage) \<and>
   map sectionKind (p_sections toolsPackage) = [asc ''tools'', asc ''context'', asc ''metadata''] \<and>
   map sectionKind (filter appears (p_sections toolsPackage)) =
     [asc ''context'', asc ''metadata''] \<and>
   content (toCursor v8Message toolsPackage None) =
     generateMDCHeader toolsPackage None @ [10, 10] @
     asc ''## B'' @ [10, 10] @ asc ''c'' @ [10, 10] @ asc ''# T''"
proof -
  have b: "\<not> list_ex nullishData (p_sections toolsPackage)"
    by (simp add: toolsPackage_def samplePackage_def titleSection_def nullishData_def)
  have t: "map sectionText (p_sections toolsPackage) =
     [[], asc ''## B'' @ [10, 10] @ asc ''c'', asc ''# T'']"
    by (simp add: toolsPackage_def sectionText_def convert_defs)
  have f: "filter appears (p_sections toolsPackage) =
     [ContextSection (asc ''B'') (asc ''c''), titleSection]"
    by (simp add: toolsPackage_def appears_def sectionText_def convert_defs)
  have k: "map sectionKind (p_sections toolsPackage) = [asc ''tools'', asc ''context'', asc ''metadata'']"
    by (simp add: toolsPackage_def samplePackage_def sectionKind_def titleSection_def)
  have k2: "map sectionKind (filter appears (p_sections toolsPackage)) =
     [asc ''context'', asc ''metadata'']"
    by (simp add: f sectionKind_def titleSection_def)
  have j: "trim (join [10] (concat (map (\<lambda>s. [sectionText s, []])
              (filter appears (p_sections toolsPackage))))) =
     asc ''## B'' @ [10, 10] @ asc ''c'' @ [10, 10] @ asc ''# T''"
    unfolding f using t
    by (simp add: toolsPackage_def samplePackage_def asc_def trim_def isWhitespace_def)
  from section_order_preserved[of v8Message toolsPackage None] b k k2 j show ?thesis
    by simp
qed

subsection \<open>Converter B\<close>

text \<open>
  Claim C3. For every package, \<open>toKiro\<close> without a configuration or without an inclusion
  mode raises an error that names the inclusion mode, and with the mode \<open>fileMatch\<close> and
  no pattern raises an error that names \<open>fileMatchPattern\<close>; in both cases nothing is
  rendered.
\<close>

theorem kiro_fail_fast:
  "toKiro render pkg None = Inl (asc ''Kiro format requires inclusion mode'') \<and>
   toKiro render pkg (Some (cfg\<lparr>k_inclusion := None\<rparr>)) =
     Inl (asc ''Kiro format requires inclusion mode'') \<and>
   includesStr (asc ''Kiro format requires inclusion mode'') (asc ''inclusion mode'') \<and>
   toKiro render pkg (Some (cfg\<lparr>k_inclusion := Some FileMatch, k_fileMatchPattern := None\<rparr>)) =
     Inl (asc ''fileMatch inclusion mode requires fileMatchPattern'') \<and>
   includesStr (asc ''fileMatch inclusion mode requires fileMatchPattern'')
     (asc ''fileMatchPattern'')"
  by (simp add: toKiro_def asc_def startsWith_def)

end
